theory Spec2Isabelle
  imports Main
begin

section \<open>The inventory service of the AirKicks store\<close>

text \<open>
  A shallow embedding of \<^verbatim>\<open>class InventoryService\<close> (the second module of
  \<^verbatim>\<open>src/services/paymentService.js\<close>). JavaScript numbers are modelled as
  \<open>int\<close> (the service only adds, subtracts and compares stock figures), strings as
  \<open>string\<close>, an optional string argument (\<^verbatim>\<open>size\<close>, \<^verbatim>\<open>color\<close>) as
  \<open>string option\<close> with \<open>None\<close> for \<^verbatim>\<open>undefined\<close>. Every method takes the
  service state and returns the new state next to its result; a thrown error is the
  \<open>Inl\<close> of the result, and the state returned with it is the state at the throw.
\<close>

subsection \<open>Data\<close>

text \<open>
  Modelled from the spec: the catalog record behind \<^verbatim>\<open>require('../models/Product')\<close>
  (the model the service loads is not among the sources): a product has an active flag,
  a stock figure and, possibly, a list of variants, each with a size, a colour and a
  stock figure of its own. The service reads \<^verbatim>\<open>isActive\<close>, \<^verbatim>\<open>stock\<close> and
  \<^verbatim>\<open>variants\<close> of it and nothing else.
\<close>

record variant =
  vsize :: string
  vcolor :: string
  vstock :: int

record product =
  isActive :: bool
  stock :: int
  variants :: "variant list option"

text \<open>One entry of the inner reservation map; \<open>ttl\<close> is kept in milliseconds.\<close>

record reservation =
  quantity :: int
  createdAt :: int
  ttl :: int

text \<open>
  Modelled from the spec: the cache store (\<^verbatim>\<open>config/cache\<close> is not among the
  sources): \<^verbatim>\<open>get(key)\<close> gives the value or a miss, \<^verbatim>\<open>setex(key, seconds, value)\<close>
  stores a value that is gone once its seconds have passed, \<^verbatim>\<open>del(key)\<close> removes it.
  The service writes \<^verbatim>\<open>actualAvailable.toString()\<close> and reads it back with
  \<^verbatim>\<open>parseInt\<close>; the entry keeps the integer.
\<close>

record cacheEntry =
  cachedValue :: int
  validUntil :: int

text \<open>A pending \<^verbatim>\<open>setTimeout\<close> callback: release this reservation at \<open>dueAt\<close>.\<close>

record timer =
  dueAt :: int
  timerReservation :: string
  timerProduct :: string
  timerSize :: "string option"
  timerColor :: "string option"

datatype event =
    StockReserved string int string
  | StockReleased string int string
  | StockUpdated string int int
  | OutOfStock string int
  | LowStock string int

text \<open>
  The state: the catalog behind \<^verbatim>\<open>Product.findById\<close> and \<^verbatim>\<open>product.save\<close>, the
  cache store, \<^verbatim>\<open>this.reservations\<close> (a map from the reservation key to a map from
  reservation id to reservation; the inner map is an association list in insertion
  order, as a JavaScript \<^verbatim>\<open>Map\<close> is), the pending timers and the events emitted.
\<close>

record state =
  products :: "string \<rightharpoonup> product"
  cache :: "string \<rightharpoonup> cacheEntry"
  reservations :: "string \<rightharpoonup> (string \<times> reservation) list"
  timers :: "timer list"
  events :: "event list"

text \<open>
  What a call finds around it: the clock (\<^verbatim>\<open>Date.now()\<close>, in milliseconds, one
  reading for the call) and whether a call of the cache store or a listener of the
  stock alerts throws.
\<close>

record env =
  now :: int
  cacheGetFails :: bool
  cacheSetFails :: bool
  cacheDelFails :: bool
  listenerFails :: bool

datatype error =
    ProductNotFound
  | VariantNotFound
  | InvalidOperation
  | InsufficientStock int int
  | TypeError
  | CacheFailure
  | ListenerFailure

record availability =
  available :: bool
  stockLevel :: int
  requested :: int
  canFulfill :: int
  reason :: "string option"
  reserved :: "int option"

record reserveResult =
  resReservationId :: string
  resQuantity :: int
  expiresAt :: int

datatype releaseResult = ReservationNotFound | Released int

record updateResult =
  oldStock :: int
  newStock :: int
  operation :: string

subsection \<open>JavaScript idioms\<close>

text \<open>\<^verbatim>\<open>!!s\<close> for an optional string: \<^verbatim>\<open>undefined\<close> and \<^verbatim>\<open>''\<close> are falsy.\<close>

definition truthy :: "string option \<Rightarrow> bool" where
  "truthy s = (case s of None \<Rightarrow> False | Some x \<Rightarrow> x \<noteq> [])"

text \<open>\<^verbatim>\<open>s || 'any'\<close>\<close>

definition orAny :: "string option \<Rightarrow> string" where
  "orAny s = (if truthy s then the s else ''any'')"

text \<open>\<^verbatim>\<open>n || 0\<close> for a number.\<close>

definition orZero :: "int \<Rightarrow> int" where
  "orZero n = (if n = 0 then 0 else n)"

text \<open>\<^verbatim>\<open>`${productId}:${size || 'any'}:${color || 'any'}`\<close>\<close>

definition reservationKey :: "string \<Rightarrow> string option \<Rightarrow> string option \<Rightarrow> string" where
  "reservationKey productId sz col = productId @ '':'' @ orAny sz @ '':'' @ orAny col"

text \<open>\<^verbatim>\<open>`inventory:${productId}:${size || 'any'}:${color || 'any'}`\<close>\<close>

definition cacheKey :: "string \<Rightarrow> string option \<Rightarrow> string option \<Rightarrow> string" where
  "cacheKey productId sz col = ''inventory:'' @ productId @ '':'' @ orAny sz @ '':'' @ orAny col"

text \<open>\<^verbatim>\<open>v => (!size || v.size === size) && (!color || v.color === color)\<close>\<close>

definition variantMatches :: "string option \<Rightarrow> string option \<Rightarrow> variant \<Rightarrow> bool" where
  "variantMatches sz col v =
     ((if truthy sz then Some (vsize v) = sz else True) \<and>
      (if truthy col then Some (vcolor v) = col else True))"

text \<open>\<^verbatim>\<open>Array.prototype.findIndex\<close>; \<open>None\<close> is \<^verbatim>\<open>-1\<close>.\<close>

fun findIndex :: "('a \<Rightarrow> bool) \<Rightarrow> 'a list \<Rightarrow> nat option" where
  "findIndex P [] = None"
| "findIndex P (x # xs) =
     (if P x then Some 0 else (case findIndex P xs of None \<Rightarrow> None | Some i \<Rightarrow> Some (Suc i)))"

text \<open>\<^verbatim>\<open>Map.prototype.set\<close>: an existing key keeps its place, a new one goes last.\<close>

fun mapSet :: "string \<Rightarrow> 'v \<Rightarrow> (string \<times> 'v) list \<Rightarrow> (string \<times> 'v) list" where
  "mapSet k v [] = [(k, v)]"
| "mapSet k v ((k', v') # rest) =
     (if k' = k then (k, v) # rest else (k', v') # mapSet k v rest)"

text \<open>\<^verbatim>\<open>Map.prototype.delete\<close>\<close>

fun mapDelete :: "string \<Rightarrow> (string \<times> 'v) list \<Rightarrow> (string \<times> 'v) list" where
  "mapDelete k [] = []"
| "mapDelete k ((k', v') # rest) = (if k' = k then rest else (k', v') # mapDelete k rest)"

subsection \<open>The cache store\<close>

definition cacheGet :: "int \<Rightarrow> (string \<rightharpoonup> cacheEntry) \<Rightarrow> string \<Rightarrow> int option" where
  "cacheGet t c k =
     (case c k of
        None \<Rightarrow> None
      | Some e \<Rightarrow> if t < validUntil e then Some (cachedValue e) else None)"

definition cacheSetex :: "int \<Rightarrow> (string \<rightharpoonup> cacheEntry) \<Rightarrow> string \<Rightarrow> int \<Rightarrow> int \<Rightarrow> (string \<rightharpoonup> cacheEntry)" where
  "cacheSetex t c k seconds v = c(k \<mapsto> \<lparr>cachedValue = v, validUntil = t + seconds * 1000\<rparr>)"

definition cacheDel :: "(string \<rightharpoonup> cacheEntry) \<Rightarrow> string \<Rightarrow> (string \<rightharpoonup> cacheEntry)" where
  "cacheDel c k = c(k := None)"

subsection \<open>Thresholds\<close>

definition lowStockThreshold :: int where
  "lowStockThreshold = 10"

definition outOfStockThreshold :: int where
  "outOfStockThreshold = 0"

subsection \<open>getReservedStock\<close>

text \<open>\<^verbatim>\<open>now > reservation.createdAt + reservation.ttl\<close>\<close>

definition expired :: "int \<Rightarrow> reservation \<Rightarrow> bool" where
  "expired t r = (t > createdAt r + ttl r)"

text \<open>
  The loop over \<^verbatim>\<open>productReservations.entries()\<close>: an expired entry is deleted from
  the map, any other adds its quantity to \<^verbatim>\<open>totalReserved\<close>. The result is the total
  and the entries left in the map.
\<close>

fun reservedLoop :: "int \<Rightarrow> (string \<times> reservation) list \<Rightarrow> int \<Rightarrow> int \<times> (string \<times> reservation) list" where
  "reservedLoop t [] totalReserved = (totalReserved, [])"
| "reservedLoop t ((reservationId, r) # rest) totalReserved =
     (if expired t r then reservedLoop t rest totalReserved
      else (case reservedLoop t rest (totalReserved + quantity r) of
              (n, kept) \<Rightarrow> (n, (reservationId, r) # kept)))"

definition getReservedStock :: "env \<Rightarrow> string \<Rightarrow> string option \<Rightarrow> string option \<Rightarrow> state \<Rightarrow> int \<times> state" where
  "getReservedStock e productId sz col st =
     (case reservations st (reservationKey productId sz col) of
        None \<Rightarrow> (0, st)
      | Some productReservations \<Rightarrow>
          (case reservedLoop (now e) productReservations 0 of
             (totalReserved, kept) \<Rightarrow>
               (totalReserved,
                st\<lparr>reservations := (reservations st)(reservationKey productId sz col \<mapsto> kept)\<rparr>)))"

subsection \<open>checkAvailability\<close>

definition checkAvailability :: "env \<Rightarrow> string \<Rightarrow> int \<Rightarrow> string option \<Rightarrow> string option \<Rightarrow> state \<Rightarrow> (error + availability) \<times> state" where
  "checkAvailability e productId qty sz col st =
     (if cacheGetFails e then (Inl CacheFailure, st)
      else case cacheGet (now e) (cache st) (cacheKey productId sz col) of
        Some cachedStock \<Rightarrow>
          (Inr \<lparr>available = (cachedStock \<ge> qty), stockLevel = cachedStock, requested = qty,
                canFulfill = cachedStock, reason = None, reserved = None\<rparr>, st)
      | None \<Rightarrow>
          (case products st productId of
             None \<Rightarrow>
               (Inr \<lparr>available = False, stockLevel = 0, requested = qty, canFulfill = 0,
                     reason = Some ''Product not found or inactive'', reserved = None\<rparr>, st)
           | Some p \<Rightarrow>
               if \<not> isActive p then
                 (Inr \<lparr>available = False, stockLevel = 0, requested = qty, canFulfill = 0,
                       reason = Some ''Product not found or inactive'', reserved = None\<rparr>, st)
               else
                 (case (if truthy sz \<or> truthy col then
                          (case variants p of
                             None \<Rightarrow> None
                           | Some vs \<Rightarrow>
                               (case find (variantMatches sz col) vs of
                                  None \<Rightarrow> None
                                | Some v \<Rightarrow> Some (orZero (vstock v))))
                        else Some (stock p)) of
                    None \<Rightarrow>
                      (Inr \<lparr>available = False, stockLevel = 0, requested = qty, canFulfill = 0,
                            reason = Some ''Variant not found'', reserved = None\<rparr>, st)
                  | Some availableStock \<Rightarrow>
                      (case getReservedStock e productId sz col st of
                         (reservedStock, st1) \<Rightarrow>
                           let actualAvailable = max 0 (availableStock - reservedStock) in
                           if cacheSetFails e then (Inl CacheFailure, st1)
                           else
                             (Inr \<lparr>available = (actualAvailable \<ge> qty),
                                   stockLevel = actualAvailable, requested = qty,
                                   canFulfill = min actualAvailable qty, reason = None,
                                   reserved = Some reservedStock\<rparr>,
                              st1\<lparr>cache := cacheSetex (now e) (cache st1)
                                     (cacheKey productId sz col) 300 actualAvailable\<rparr>)))))"

subsection \<open>reserveStock\<close>

text \<open>\<^verbatim>\<open>const { size, color, ttl = 900 } = options\<close>\<close>

definition ttlOrDefault :: "int option \<Rightarrow> int" where
  "ttlOrDefault t = (case t of None \<Rightarrow> 900 | Some s \<Rightarrow> s)"

text \<open>
  The part of \<^verbatim>\<open>reserveStock\<close> that runs once
  \<^verbatim>\<open>await this.checkAvailability(...)\<close> has handed back \<open>a\<close>: the test of
  \<^verbatim>\<open>availability.available\<close>, the insertion, the timer, the cache deletion and the
  \<^verbatim>\<open>stockReserved\<close> event.
\<close>

definition reserveStockAdmit :: "env \<Rightarrow> string \<Rightarrow> int \<Rightarrow> string option \<Rightarrow> string option \<Rightarrow> int option \<Rightarrow> string \<Rightarrow> availability \<Rightarrow> state \<Rightarrow> (error + reserveResult) \<times> state" where
  "reserveStockAdmit e productId qty sz col ttlSeconds reservationId a st =
     (if \<not> available a then (Inl (InsufficientStock (stockLevel a) qty), st)
      else
        let k = reservationKey productId sz col;
            productReservations = (case reservations st k of None \<Rightarrow> [] | Some m \<Rightarrow> m);
            st1 = st\<lparr>reservations := (reservations st)(k \<mapsto>
                       mapSet reservationId
                         \<lparr>quantity = qty, createdAt = now e, ttl = ttlOrDefault ttlSeconds * 1000\<rparr>
                         productReservations),
                     timers := timers st @
                       [\<lparr>dueAt = now e + ttlOrDefault ttlSeconds * 1000,
                         timerReservation = reservationId, timerProduct = productId,
                         timerSize = sz, timerColor = col\<rparr>]\<rparr>
        in if cacheDelFails e then (Inl CacheFailure, st1)
           else
             (Inr \<lparr>resReservationId = reservationId, resQuantity = qty,
                   expiresAt = now e + ttlOrDefault ttlSeconds * 1000\<rparr>,
              st1\<lparr>cache := cacheDel (cache st1) (cacheKey productId sz col),
                  events := events st1 @ [StockReserved productId qty reservationId]\<rparr>))"

definition reserveStock :: "env \<Rightarrow> string \<Rightarrow> int \<Rightarrow> string option \<Rightarrow> string option \<Rightarrow> int option \<Rightarrow> string \<Rightarrow> state \<Rightarrow> (error + reserveResult) \<times> state" where
  "reserveStock e productId qty sz col ttlSeconds reservationId st =
     (case checkAvailability e productId qty sz col st of
        (Inl err, st1) \<Rightarrow> (Inl err, st1)
      | (Inr a, st1) \<Rightarrow> reserveStockAdmit e productId qty sz col ttlSeconds reservationId a st1)"

subsection \<open>releaseReservation\<close>

definition releaseReservation :: "env \<Rightarrow> string \<Rightarrow> string \<Rightarrow> string option \<Rightarrow> string option \<Rightarrow> state \<Rightarrow> (error + releaseResult) \<times> state" where
  "releaseReservation e reservationId productId sz col st =
     (case reservations st (reservationKey productId sz col) of
        None \<Rightarrow> (Inr ReservationNotFound, st)
      | Some productReservations \<Rightarrow>
          (case map_of productReservations reservationId of
             None \<Rightarrow> (Inr ReservationNotFound, st)
           | Some r \<Rightarrow>
               let k = reservationKey productId sz col;
                   left = mapDelete reservationId productReservations;
                   st1 = st\<lparr>reservations :=
                              (if left = [] then (reservations st)(k := None)
                               else (reservations st)(k \<mapsto> left))\<rparr>
               in if cacheDelFails e then (Inl CacheFailure, st1)
                  else
                    (Inr (Released (quantity r)),
                     st1\<lparr>cache := cacheDel (cache st1) (cacheKey productId sz col),
                         events := events st1 @ [StockReleased productId (quantity r) reservationId]\<rparr>)))"

text \<open>A timer set by \<^verbatim>\<open>reserveStock\<close> fires: it leaves the list and calls
  \<^verbatim>\<open>releaseReservation\<close> with the arguments it was created with.\<close>

definition fireTimer :: "env \<Rightarrow> timer \<Rightarrow> state \<Rightarrow> (error + releaseResult) \<times> state" where
  "fireTimer e tm st =
     releaseReservation e (timerReservation tm) (timerProduct tm) (timerSize tm) (timerColor tm)
       (st\<lparr>timers := remove1 tm (timers st)\<rparr>)"

subsection \<open>updateStock\<close>

text \<open>The \<^verbatim>\<open>switch (operation)\<close>, which the method has once for a variant and once
  for the product.\<close>

definition applyOperation :: "string \<Rightarrow> int \<Rightarrow> int \<Rightarrow> error + int" where
  "applyOperation op old qty =
     (if op = ''set'' then Inr qty
      else if op = ''add'' then Inr (old + qty)
      else if op = ''subtract'' then Inr (max 0 (old - qty))
      else Inl InvalidOperation)"

definition checkStockAlerts :: "env \<Rightarrow> product \<Rightarrow> string \<Rightarrow> string option \<Rightarrow> string option \<Rightarrow> state \<Rightarrow> (error + unit) \<times> state" where
  "checkStockAlerts e p productId sz col st =
     (let currentStock =
            (if truthy sz \<or> truthy col then
               (case variants p of
                  None \<Rightarrow> 0
                | Some vs \<Rightarrow>
                    (case find (variantMatches sz col) vs of
                       None \<Rightarrow> 0
                     | Some v \<Rightarrow> orZero (vstock v)))
             else stock p)
      in if currentStock \<le> outOfStockThreshold then
           (if listenerFails e then (Inl ListenerFailure, st)
            else (Inr (), st\<lparr>events := events st @ [OutOfStock productId currentStock]\<rparr>))
         else if currentStock \<le> lowStockThreshold then
           (if listenerFails e then (Inl ListenerFailure, st)
            else (Inr (), st\<lparr>events := events st @ [LowStock productId currentStock]\<rparr>))
         else (Inr (), st))"

text \<open>The first half of \<^verbatim>\<open>updateStock\<close>: the new product record with the stock
  before and after, or the error thrown before anything is saved.\<close>

definition updatedProduct :: "product \<Rightarrow> int \<Rightarrow> string \<Rightarrow> string option \<Rightarrow> string option \<Rightarrow> error + (int \<times> int \<times> product)" where
  "updatedProduct p qty op sz col =
     (if truthy sz \<or> truthy col then
        (case variants p of
           None \<Rightarrow> Inl TypeError
         | Some vs \<Rightarrow>
             (case findIndex (variantMatches sz col) vs of
                None \<Rightarrow> Inl VariantNotFound
              | Some variantIndex \<Rightarrow>
                  let old = orZero (vstock (vs ! variantIndex)) in
                  (case applyOperation op old qty of
                     Inl err \<Rightarrow> Inl err
                   | Inr new \<Rightarrow>
                       let vs' = vs[variantIndex := (vs ! variantIndex)\<lparr>vstock := new\<rparr>] in
                       Inr (old, new,
                            p\<lparr>variants := Some vs',
                              stock := foldl (\<lambda>sum v. sum + orZero (vstock v)) 0 vs'\<rparr>))))
      else
        (case applyOperation op (stock p) qty of
           Inl err \<Rightarrow> Inl err
         | Inr new \<Rightarrow> Inr (stock p, new, p\<lparr>stock := new\<rparr>)))"

definition updateStock :: "env \<Rightarrow> string \<Rightarrow> int \<Rightarrow> string \<Rightarrow> string option \<Rightarrow> string option \<Rightarrow> state \<Rightarrow> (error + updateResult) \<times> state" where
  "updateStock e productId qty op sz col st =
     (case products st productId of
        None \<Rightarrow> (Inl ProductNotFound, st)
      | Some p \<Rightarrow>
          (case updatedProduct p qty op sz col of
             Inl err \<Rightarrow> (Inl err, st)
           | Inr (old, new, p') \<Rightarrow>
               let st1 = st\<lparr>products := (products st)(productId \<mapsto> p')\<rparr> in
               if cacheDelFails e then (Inl CacheFailure, st1)
               else
                 (case checkStockAlerts e p' productId sz col
                         (st1\<lparr>cache := cacheDel (cache st1) (cacheKey productId sz col)\<rparr>) of
                    (Inl err, st2) \<Rightarrow> (Inl err, st2)
                  | (Inr u, st2) \<Rightarrow>
                      (Inr \<lparr>oldStock = old, newStock = new, operation = op\<rparr>,
                       st2\<lparr>events := events st2 @ [StockUpdated productId old new]\<rparr>))))"

subsection \<open>cleanupExpiredReservations\<close>

text \<open>The periodic sweep: in every inner map the expired entries are deleted, and an
  inner map left empty is removed from the outer one.\<close>

definition cleanupExpiredReservations :: "env \<Rightarrow> state \<Rightarrow> state" where
  "cleanupExpiredReservations e st =
     st\<lparr>reservations := (\<lambda>k.
          case reservations st k of
            None \<Rightarrow> None
          | Some productReservations \<Rightarrow>
              (let kept = filter (\<lambda>(reservationId, r). \<not> expired (now e) r) productReservations
               in if kept = [] then None else Some kept))\<rparr>"

subsection \<open>Sequences of calls on one key\<close>

text \<open>A call of \<^verbatim>\<open>reserveStock\<close> (quantity, time to live, reservation id),
  \<^verbatim>\<open>releaseReservation\<close> (reservation id) or \<^verbatim>\<open>updateStock\<close> (quantity,
  operation) for a fixed product, size and colour; each call of a sequence comes with
  the clock and the collaborators it finds.\<close>

datatype call = Reserve int "int option" string | Release string | Update int string

fun callOn :: "string \<Rightarrow> string option \<Rightarrow> string option \<Rightarrow> env \<Rightarrow> call \<Rightarrow> state \<Rightarrow> state" where
  "callOn productId sz col e (Reserve qty ttlSeconds rid) st =
     snd (reserveStock e productId qty sz col ttlSeconds rid st)"
| "callOn productId sz col e (Release rid) st =
     snd (releaseReservation e rid productId sz col st)"
| "callOn productId sz col e (Update qty op) st =
     snd (updateStock e productId qty op sz col st)"

fun runCalls :: "string \<Rightarrow> string option \<Rightarrow> string option \<Rightarrow> (env \<times> call) list \<Rightarrow> state \<Rightarrow> state" where
  "runCalls productId sz col [] st = st"
| "runCalls productId sz col ((e, c) # cs) st =
     runCalls productId sz col cs (callOn productId sz col e c st)"

fun callQuantity :: "call \<Rightarrow> int" where
  "callQuantity (Reserve qty ttlSeconds rid) = qty"
| "callQuantity (Release rid) = 0"
| "callQuantity (Update qty op) = qty"

subsection \<open>Calls that overlap\<close>

text \<open>
  \<^verbatim>\<open>reserveStock\<close> is an \<^verbatim>\<open>async\<close> function: at
  \<^verbatim>\<open>await this.checkAvailability(...)\<close> it hands control back to the event loop, and
  other calls run before it goes on. A call for one unit is a task in one of three
  stages: not started, back from the availability check with its answer, or finished
  with its result. \<open>advance\<close> runs one task from one stage to the next without
  interruption; \<open>interleave\<close> runs the tasks of a list in the order a schedule names
  them.
\<close>

datatype task =
    Waiting string
  | Checked string "error + availability"
  | Finished "error + reserveResult"

fun advance :: "env \<Rightarrow> string \<Rightarrow> string option \<Rightarrow> string option \<Rightarrow> task \<Rightarrow> state \<Rightarrow> task \<times> state" where
  "advance e productId sz col (Waiting rid) st =
     (case checkAvailability e productId 1 sz col st of (r, st1) \<Rightarrow> (Checked rid r, st1))"
| "advance e productId sz col (Checked rid (Inl err)) st = (Finished (Inl err), st)"
| "advance e productId sz col (Checked rid (Inr a)) st =
     (case reserveStockAdmit e productId 1 sz col None rid a st of (r, st1) \<Rightarrow> (Finished r, st1))"
| "advance e productId sz col (Finished r) st = (Finished r, st)"

fun interleave :: "env \<Rightarrow> string \<Rightarrow> string option \<Rightarrow> string option \<Rightarrow> nat list \<Rightarrow> task list \<Rightarrow> state \<Rightarrow> task list \<times> state" where
  "interleave e productId sz col [] ts st = (ts, st)"
| "interleave e productId sz col (i # schedule) ts st =
     (if i < length ts then
        (case advance e productId sz col (ts ! i) st of
           (t, st1) \<Rightarrow> interleave e productId sz col schedule (ts[i := t]) st1)
      else interleave e productId sz col schedule ts st)"

definition succeeded :: "error + reserveResult \<Rightarrow> bool" where
  "succeeded r = (case r of Inl err \<Rightarrow> False | Inr res \<Rightarrow> True)"

fun finishedWell :: "task \<Rightarrow> bool" where
  "finishedWell (Finished r) = succeeded r"
| "finishedWell t = False"

text \<open>Calls of \<^verbatim>\<open>reserveStock\<close> for one unit each, with the default time to live, made
  one after the other: each has returned before the next is made, and each finds the
  clock and the collaborators of its own moment.\<close>

fun reserveEach :: "string \<Rightarrow> string option \<Rightarrow> string option \<Rightarrow> (env \<times> string) list \<Rightarrow> state \<Rightarrow> (error + reserveResult) list \<times> state" where
  "reserveEach productId sz col [] st = ([], st)"
| "reserveEach productId sz col ((e, rid) # calls) st =
     (case reserveStock e productId 1 sz col None rid st of
        (r, st1) \<Rightarrow>
          (case reserveEach productId sz col calls st1 of (rs, st2) \<Rightarrow> (r # rs, st2)))"

subsection \<open>Derived quantities\<close>

text \<open>The entries of an inner map that have not expired at \<open>t\<close>, and the sum of their
  quantities.\<close>

definition live :: "int \<Rightarrow> (string \<times> reservation) list \<Rightarrow> (string \<times> reservation) list" where
  "live t rs = filter (\<lambda>(reservationId, r). \<not> expired t r) rs"

definition reservedSum :: "int \<Rightarrow> (string \<times> reservation) list \<Rightarrow> int" where
  "reservedSum t rs = sum_list (map (\<lambda>(reservationId, r). quantity r) (live t rs))"

text \<open>The stock figure on record for a product or for the variant that \<open>sz\<close> and
  \<open>col\<close> select: the figure \<^verbatim>\<open>checkAvailability\<close> starts from and
  \<^verbatim>\<open>updateStock\<close> reads as \<^verbatim>\<open>oldStock\<close>.\<close>

definition ledgerStock :: "product \<Rightarrow> string option \<Rightarrow> string option \<Rightarrow> int option" where
  "ledgerStock p sz col =
     (if truthy sz \<or> truthy col then
        (case variants p of
           None \<Rightarrow> None
         | Some vs \<Rightarrow> map_option vstock (find (variantMatches sz col) vs))
      else Some (stock p))"

definition totalStock :: "state \<Rightarrow> string \<Rightarrow> string option \<Rightarrow> string option \<Rightarrow> int option" where
  "totalStock st productId sz col =
     (case products st productId of
        None \<Rightarrow> None
      | Some p \<Rightarrow> if \<not> isActive p then None else ledgerStock p sz col)"

text \<open>Available stock of a key at the clock reading of \<open>e\<close>: total stock less the
  reserved stock, not below zero (\<^verbatim>\<open>actualAvailable\<close> in \<^verbatim>\<open>checkAvailability\<close>).\<close>

definition availableAt :: "env \<Rightarrow> string \<Rightarrow> string option \<Rightarrow> string option \<Rightarrow> state \<Rightarrow> int option" where
  "availableAt e productId sz col st =
     map_option (\<lambda>n. max 0 (n - fst (getReservedStock e productId sz col st)))
       (totalStock st productId sz col)"


text \<open>The entries held under a reservation key; none when the key is absent.\<close>

definition entriesOf :: "state \<Rightarrow> string \<Rightarrow> (string \<times> reservation) list" where
  "entriesOf st k = (case reservations st k of None \<Rightarrow> [] | Some m \<Rightarrow> m)"

text \<open>The availability check of \<^verbatim>\<open>reserveStock\<close> lets the call pass.\<close>

definition admits :: "env \<Rightarrow> string \<Rightarrow> int \<Rightarrow> string option \<Rightarrow> string option \<Rightarrow> state \<Rightarrow> bool" where
  "admits e productId qty sz col st =
     (case fst (checkAvailability e productId qty sz col st) of
        Inl err \<Rightarrow> False
      | Inr a \<Rightarrow> available a)"

text \<open>The data model's typing: stock figures are not negative, and neither are the
  quantities reserved under the key.\<close>

definition stockOk :: "product \<Rightarrow> bool" where
  "stockOk p =
     (0 \<le> stock p \<and>
      (case variants p of None \<Rightarrow> True | Some vs \<Rightarrow> list_all (\<lambda>v. 0 \<le> vstock v) vs))"

definition wellFormed :: "state \<Rightarrow> string \<Rightarrow> string option \<Rightarrow> string option \<Rightarrow> bool" where
  "wellFormed st productId sz col =
     ((case products st productId of None \<Rightarrow> True | Some p \<Rightarrow> stockOk p) \<and>
      list_all (\<lambda>(rid, r). 0 \<le> quantity r) (entriesOf st (reservationKey productId sz col)))"

subsection \<open>Example states\<close>

text \<open>A call at time \<open>t\<close> during which no collaborator throws.\<close>

definition healthy :: "int \<Rightarrow> env" where
  "healthy t = \<lparr>now = t, cacheGetFails = False, cacheSetFails = False, cacheDelFails = False,
     listenerFails = False\<rparr>"

text \<open>A shop with the one active product \<open>p1\<close>, without variants and with \<open>n\<close> units
  in stock, nothing reserved and nothing cached; and the same with a figure in the cache
  under the key of \<open>p1\<close>.\<close>

definition plainProduct :: "int \<Rightarrow> product" where
  "plainProduct n = \<lparr>isActive = True, stock = n, variants = None\<rparr>"

definition shop :: "int \<Rightarrow> state" where
  "shop n = \<lparr>products = [''p1'' \<mapsto> plainProduct n], cache = Map.empty, reservations = Map.empty,
     timers = [], events = []\<rparr>"

definition cached :: "int \<Rightarrow> int \<Rightarrow> state \<Rightarrow> state" where
  "cached v until st =
     st\<lparr>cache := (cache st)(cacheKey ''p1'' None None \<mapsto> \<lparr>cachedValue = v, validUntil = until\<rparr>)\<rparr>"

text \<open>A shop whose product \<open>p1\<close> comes in two sizes, 2 units of size 9 and 3 of size
  10.\<close>

definition sizedProduct :: product where
  "sizedProduct = \<lparr>isActive = True, stock = 5,
     variants = Some [\<lparr>vsize = ''9'', vcolor = ''red'', vstock = 2\<rparr>,
                      \<lparr>vsize = ''10'', vcolor = ''red'', vstock = 3\<rparr>]\<rparr>"

definition sizedShop :: state where
  "sizedShop = \<lparr>products = [''p1'' \<mapsto> sizedProduct], cache = Map.empty, reservations = Map.empty,
     timers = [], events = []\<rparr>"

text \<open>The shop with 5 units after \<^verbatim>\<open>reserveStock('p1', 3, {}, 'r1')\<close> at time 0: \<open>r1\<close>
  holds 3 units for the default 900 seconds and its timer is pending.\<close>

definition r1Timer :: timer where
  "r1Timer = \<lparr>dueAt = 900000, timerReservation = ''r1'', timerProduct = ''p1'',
     timerSize = None, timerColor = None\<rparr>"

definition held :: state where
  "held = \<lparr>products = [''p1'' \<mapsto> plainProduct 5], cache = Map.empty,
     reservations = [''p1:any:any'' \<mapsto> [(''r1'', \<lparr>quantity = 3, createdAt = 0, ttl = 900000\<rparr>)]],
     timers = [r1Timer], events = [StockReserved ''p1'' 3 ''r1'']\<rparr>"

text \<open>Calls during which \<^verbatim>\<open>cache.del\<close> throws, \<^verbatim>\<open>cache.get\<close> throws, or a listener
  of the stock alerts throws.\<close>

definition cacheDelDown :: "int \<Rightarrow> env" where
  "cacheDelDown t = \<lparr>now = t, cacheGetFails = False, cacheSetFails = False, cacheDelFails = True,
     listenerFails = False\<rparr>"

definition cacheGetDown :: "int \<Rightarrow> env" where
  "cacheGetDown t = \<lparr>now = t, cacheGetFails = True, cacheSetFails = False, cacheDelFails = False,
     listenerFails = False\<rparr>"

definition listenerDown :: "int \<Rightarrow> env" where
  "listenerDown t = \<lparr>now = t, cacheGetFails = False, cacheSetFails = False, cacheDelFails = False,
     listenerFails = True\<rparr>"

section \<open>Properties\<close>

subsection \<open>The scan and the two paths of checkAvailability\<close>

lemma orZero_id [simp]: "orZero n = n"
  by (simp add: orZero_def)

lemma reservedLoop_eq:
  "reservedLoop t rs n = (n + reservedSum t rs, live t rs)"
  by (induction rs arbitrary: n) (auto simp: reservedSum_def live_def)

lemma getReservedStock_eq:
  "getReservedStock e productId sz col st =
     (case reservations st (reservationKey productId sz col) of
        None \<Rightarrow> (0, st)
      | Some rs \<Rightarrow>
          (reservedSum (now e) rs,
           st\<lparr>reservations := (reservations st)(reservationKey productId sz col \<mapsto> live (now e) rs)\<rparr>))"
  by (simp add: getReservedStock_def reservedLoop_eq split: option.splits)

lemma checkAvailability_hit:
  assumes "\<not> cacheGetFails e"
      and "cacheGet (now e) (cache st) (cacheKey productId sz col) = Some v"
  shows "checkAvailability e productId qty sz col st =
           (Inr \<lparr>available = (v \<ge> qty), stockLevel = v, requested = qty, canFulfill = v,
                 reason = None, reserved = None\<rparr>, st)"
  using assms by (simp add: checkAvailability_def)

lemma checkAvailability_miss:
  assumes "\<not> cacheGetFails e" "\<not> cacheSetFails e"
      and "cacheGet (now e) (cache st) (cacheKey productId sz col) = None"
      and "totalStock st productId sz col = Some S"
  shows "checkAvailability e productId qty sz col st =
           (let r = fst (getReservedStock e productId sz col st);
                st1 = snd (getReservedStock e productId sz col st);
                a = max 0 (S - r)
            in (Inr \<lparr>available = (a \<ge> qty), stockLevel = a, requested = qty,
                     canFulfill = min a qty, reason = None, reserved = Some r\<rparr>,
                st1\<lparr>cache := cacheSetex (now e) (cache st1) (cacheKey productId sz col) 300 a\<rparr>))"
  using assms
  by (auto simp: checkAvailability_def totalStock_def ledgerStock_def Let_def split: option.splits if_splits prod.splits)

subsection \<open>The product written by updateStock\<close>

lemma foldl_stock_sum:
  "foldl (\<lambda>sum v. sum + vstock v) a vs = a + sum_list (map vstock vs)"
  by (induction vs arbitrary: a) auto

lemma findIndex_Some:
  "findIndex P xs = Some i \<Longrightarrow> i < length xs \<and> P (xs ! i) \<and> find P xs = Some (xs ! i)"
  by (induction xs arbitrary: i) (auto split: if_splits option.splits)



lemma variantMatches_vstock [simp]:
  "variantMatches sz col (v\<lparr>vstock := n\<rparr>) = variantMatches sz col v"
  by (simp add: variantMatches_def)





subsection \<open>The example states\<close>

lemmas eval_defs = healthy_def shop_def plainProduct_def cacheKey_def reservationKey_def
  orAny_def truthy_def cacheGet_def cacheSetex_def cacheDel_def ttlOrDefault_def

text \<open>The state \<open>held\<close> is the one the reservation leaves.\<close>

lemma held_reached:
  "snd (reserveStock (healthy 0) ''p1'' 3 None None None ''r1'' (shop 5)) = held"
  by (simp add: reserveStock_def reserveStockAdmit_def checkAvailability_def getReservedStock_def
      held_def r1Timer_def eval_defs)

subsection \<open>Expiry, release and sweep\<close>

lemma expired_mono: "expired t1 r \<Longrightarrow> t1 \<le> t2 \<Longrightarrow> expired t2 r"
  by (simp add: expired_def)

lemma live_live: "t1 \<le> t2 \<Longrightarrow> live t2 (live t1 rs) = live t2 rs"
  by (induction rs) (auto simp: live_def dest: expired_mono)

lemma reservedSum_live: "t1 \<le> t2 \<Longrightarrow> reservedSum t2 (live t1 rs) = reservedSum t2 rs"
  by (simp add: reservedSum_def live_live)


lemma getReservedStock_fst:
  "fst (getReservedStock e productId sz col st) =
     (case reservations st (reservationKey productId sz col) of
        None \<Rightarrow> 0 | Some rs \<Rightarrow> reservedSum (now e) rs)"
  by (simp add: getReservedStock_eq split: option.splits)

lemma reservedSum_Nil [simp]: "reservedSum t [] = 0"
  by (simp add: reservedSum_def live_def)

lemma releaseReservation_reservations:
  "reservations (snd (releaseReservation e rid productId sz col st)) (reservationKey productId sz col) =
     (case reservations st (reservationKey productId sz col) of
        None \<Rightarrow> None
      | Some rs \<Rightarrow>
          (case map_of rs rid of
             None \<Rightarrow> Some rs
           | Some r \<Rightarrow> if mapDelete rid rs = [] then None else Some (mapDelete rid rs)))"
  by (simp add: releaseReservation_def Let_def split: option.splits)

lemma releaseReservation_products [simp]:
  "products (snd (releaseReservation e rid productId sz col st)) = products st"
  by (simp add: releaseReservation_def Let_def split: option.splits)


lemma cleanup_products [simp]: "products (cleanupExpiredReservations e st) = products st"
  by (simp add: cleanupExpiredReservations_def)

lemma totalStock_cong: "products st' = products st \<Longrightarrow> totalStock st' productId sz col = totalStock st productId sz col"
  by (simp add: totalStock_def)

lemma availableAt_eq:
  "availableAt e productId sz col st =
     map_option (\<lambda>n. max 0 (n - (case reservations st (reservationKey productId sz col) of
        None \<Rightarrow> 0 | Some rs \<Rightarrow> reservedSum (now e) rs))) (totalStock st productId sz col)"
  by (simp add: availableAt_def getReservedStock_fst)


subsection \<open>The result of reserveStock\<close>

lemma reserveStockAdmit_fst:
  "fst (reserveStockAdmit e productId qty sz col ttlSeconds rid a st) =
     (if \<not> available a then Inl (InsufficientStock (stockLevel a) qty)
      else if cacheDelFails e then Inl CacheFailure
      else Inr \<lparr>resReservationId = rid, resQuantity = qty,
                expiresAt = now e + ttlOrDefault ttlSeconds * 1000\<rparr>)"
  by (simp add: reserveStockAdmit_def Let_def)

lemma reserveStock_fst:
  "fst (reserveStock e productId qty sz col ttlSeconds rid st) =
     (case fst (checkAvailability e productId qty sz col st) of
        Inl err \<Rightarrow> Inl err
      | Inr a \<Rightarrow>
          if \<not> available a then Inl (InsufficientStock (stockLevel a) qty)
          else if cacheDelFails e then Inl CacheFailure
          else Inr \<lparr>resReservationId = rid, resQuantity = qty,
                    expiresAt = now e + ttlOrDefault ttlSeconds * 1000\<rparr>)"
  by (simp add: reserveStock_def reserveStockAdmit_fst split: prod.splits sum.splits)

lemma checkAvailability_fst_miss:
  assumes "cacheGet (now e) (cache st) (cacheKey productId sz col) = None"
  shows "fst (checkAvailability e productId qty sz col st) =
     (if cacheGetFails e then Inl CacheFailure
      else case totalStock st productId sz col of
        None \<Rightarrow>
          Inr \<lparr>available = False, stockLevel = 0, requested = qty, canFulfill = 0,
                reason = Some (if (case products st productId of None \<Rightarrow> True | Some p \<Rightarrow> \<not> isActive p)
                               then ''Product not found or inactive'' else ''Variant not found''),
                reserved = None\<rparr>
      | Some n \<Rightarrow>
          if cacheSetFails e then Inl CacheFailure
          else Inr \<lparr>available = (max 0 (n - fst (getReservedStock e productId sz col st)) \<ge> qty),
                    stockLevel = max 0 (n - fst (getReservedStock e productId sz col st)),
                    requested = qty,
                    canFulfill = min (max 0 (n - fst (getReservedStock e productId sz col st))) qty,
                    reason = None,
                    reserved = Some (fst (getReservedStock e productId sz col st))\<rparr>)"
  using assms
  by (auto simp: checkAvailability_def totalStock_def ledgerStock_def Let_def
      split: option.splits prod.splits)

lemma checkAvailability_miss_cong:
  assumes "cacheGet (now e) (cache st) (cacheKey productId sz col) = None"
      and "cacheGet (now e) (cache st') (cacheKey productId sz col) = None"
      and "products st' = products st" and "reservations st' = reservations st"
  shows "fst (checkAvailability e productId qty sz col st') =
         fst (checkAvailability e productId qty sz col st)"
proof -
  have r: "fst (getReservedStock e productId sz col st') = fst (getReservedStock e productId sz col st)"
    using assms(4) by (simp add: getReservedStock_fst)
  have t: "totalStock st' productId sz col = totalStock st productId sz col"
    using assms(3) by (rule totalStock_cong)
  show ?thesis
    unfolding checkAvailability_fst_miss [OF assms(1)] checkAvailability_fst_miss [OF assms(2)] r t
      assms(3) ..
qed

subsection \<open>The registry under reserve and release\<close>

lemma map_of_mapSet: "map_of (mapSet k v xs) k' = (if k' = k then Some v else map_of xs k')"
  by (induction xs) auto

lemma mapDelete_mapSet_fresh: "map_of xs k = None \<Longrightarrow> mapDelete k (mapSet k v xs) = xs"
  by (induction xs) (auto split: if_splits)

lemma map_of_live_None: "map_of rs k = None \<Longrightarrow> map_of (live t rs) k = None"
  by (induction rs) (auto simp: live_def split: if_splits)

lemma entriesOf_reservedSum:
  "(case reservations st k of None \<Rightarrow> 0 | Some rs \<Rightarrow> reservedSum t rs) = reservedSum t (entriesOf st k)"
  by (simp add: entriesOf_def split: option.splits)

lemma availableAt_entries:
  "availableAt e productId sz col st =
     map_option (\<lambda>n. max 0 (n - reservedSum (now e) (entriesOf st (reservationKey productId sz col))))
       (totalStock st productId sz col)"
  by (simp add: availableAt_eq entriesOf_reservedSum)

lemma checkAvailability_products [simp]:
  "products (snd (checkAvailability e productId qty sz col st)) = products st"
  by (simp add: checkAvailability_def getReservedStock_eq Let_def split: option.splits)

lemma checkAvailability_entries:
  "entriesOf (snd (checkAvailability e productId qty sz col st)) (reservationKey productId sz col) =
     entriesOf st (reservationKey productId sz col) \<or>
   entriesOf (snd (checkAvailability e productId qty sz col st)) (reservationKey productId sz col) =
     live (now e) (entriesOf st (reservationKey productId sz col))"
  by (simp add: checkAvailability_def getReservedStock_eq entriesOf_def Let_def split: option.splits)

lemma reserveStockAdmit_entries:
  "available a \<Longrightarrow>
   entriesOf (snd (reserveStockAdmit e productId qty sz col ttlSeconds rid a st))
       (reservationKey productId sz col) =
     mapSet rid \<lparr>quantity = qty, createdAt = now e, ttl = ttlOrDefault ttlSeconds * 1000\<rparr>
       (entriesOf st (reservationKey productId sz col))"
  by (simp add: reserveStockAdmit_def entriesOf_def Let_def)

lemma reserveStockAdmit_products [simp]:
  "products (snd (reserveStockAdmit e productId qty sz col ttlSeconds rid a st)) = products st"
  by (simp add: reserveStockAdmit_def Let_def)

lemma reserveStock_products [simp]:
  "products (snd (reserveStock e productId qty sz col ttlSeconds rid st)) = products st"
proof (cases "checkAvailability e productId qty sz col st")
  case (Pair r st1)
  have "products (snd (checkAvailability e productId qty sz col st)) = products st"
    by simp
  with Pair have "products st1 = products st"
    by simp
  with Pair show ?thesis
    by (cases r) (simp_all add: reserveStock_def)
qed

lemma reserveStock_entries:
  assumes "admits e productId qty sz col st"
  shows "entriesOf (snd (reserveStock e productId qty sz col ttlSeconds rid st))
           (reservationKey productId sz col) =
         mapSet rid \<lparr>quantity = qty, createdAt = now e, ttl = ttlOrDefault ttlSeconds * 1000\<rparr>
           (entriesOf (snd (checkAvailability e productId qty sz col st))
              (reservationKey productId sz col))"
  using assms
  by (auto simp: admits_def reserveStock_def reserveStockAdmit_entries split: prod.splits sum.splits)

lemma reserveStock_fst_admits:
  "fst (reserveStock e productId qty sz col ttlSeconds rid st) = Inr res \<Longrightarrow>
     admits e productId qty sz col st"
  by (auto simp: reserveStock_fst admits_def split: sum.splits if_splits)

lemma releaseReservation_entries:
  "entriesOf (snd (releaseReservation e rid productId sz col st)) (reservationKey productId sz col) =
     (case map_of (entriesOf st (reservationKey productId sz col)) rid of
        None \<Rightarrow> entriesOf st (reservationKey productId sz col)
      | Some r \<Rightarrow> mapDelete rid (entriesOf st (reservationKey productId sz col)))"
  by (simp add: releaseReservation_def entriesOf_def Let_def split: option.splits)

lemma releaseReservation_fst:
  "fst (releaseReservation e rid productId sz col st) =
     (case map_of (entriesOf st (reservationKey productId sz col)) rid of
        None \<Rightarrow> Inr ReservationNotFound
      | Some r \<Rightarrow> if cacheDelFails e then Inl CacheFailure else Inr (Released (quantity r)))"
  by (simp add: releaseReservation_def entriesOf_def Let_def split: option.splits)

subsection \<open>What the timer and the sweep leave\<close>

text \<open>The ids of an inner map stay distinct, as the keys of a \<^verbatim>\<open>Map\<close> are.\<close>

lemma set_mapSet: "fst ` set (mapSet k v xs) = insert k (fst ` set xs)"
proof (induction xs)
  case Nil
  then show ?case by simp
next
  case (Cons a xs)
  obtain k' v' where a: "a = (k', v')" by (cases a)
  show ?case
  proof (cases "k' = k")
    case True
    with a show ?thesis by simp
  next
    case False
    with a Cons show ?thesis by (simp add: insert_commute)
  qed
qed

lemma distinct_mapSet: "distinct (map fst xs) \<Longrightarrow> distinct (map fst (mapSet k v xs))"
proof (induction xs)
  case Nil
  then show ?case by simp
next
  case (Cons a xs)
  obtain k' v' where a: "a = (k', v')" by (cases a)
  show ?case
  proof (cases "k' = k")
    case True
    with a Cons.prems show ?thesis by simp
  next
    case False
    with a Cons show ?thesis by (simp add: set_mapSet)
  qed
qed

lemma set_mapDelete: "set (mapDelete k xs) \<subseteq> set xs"
  by (induction xs) (auto split: if_splits)

lemma distinct_mapDelete: "distinct (map fst xs) \<Longrightarrow> distinct (map fst (mapDelete k xs))"
proof (induction xs)
  case Nil
  then show ?case by simp
next
  case (Cons a xs)
  obtain k' v' where a: "a = (k', v')" by (cases a)
  have "fst ` set (mapDelete k xs) \<subseteq> fst ` set xs"
    using set_mapDelete [of k xs] by blast
  with Cons a show ?case by (cases "k' = k") auto
qed

lemma distinct_live: "distinct (map fst xs) \<Longrightarrow> distinct (map fst (live t xs))"
  by (simp add: live_def distinct_map_filter)




lemma cleanup_cache [simp]: "cache (cleanupExpiredReservations e st) = cache st"
  by (simp add: cleanupExpiredReservations_def)



subsection \<open>Alerts\<close>

lemma checkStockAlerts_listener:
  assumes "listenerFails e" and "ledgerStock p sz col = Some n" and "n \<le> lowStockThreshold"
  shows "checkStockAlerts e p productId sz col st = (Inl ListenerFailure, st)"
proof -
  have "(if truthy sz \<or> truthy col then
           (case variants p of
              None \<Rightarrow> 0
            | Some vs \<Rightarrow>
                (case find (variantMatches sz col) vs of
                   None \<Rightarrow> 0
                 | Some v \<Rightarrow> orZero (vstock v)))
         else stock p) = n"
    using assms(2) by (auto simp: ledgerStock_def split: option.splits if_splits)
  then show ?thesis
    using assms(1,3) by (simp add: checkStockAlerts_def Let_def)
qed

subsection \<open>Figures that stay non-negative\<close>

lemma list_all_mapSet: "P (k, v) \<Longrightarrow> list_all P xs \<Longrightarrow> list_all P (mapSet k v xs)"
  by (induction xs) auto

lemma list_all_mapDelete: "list_all P xs \<Longrightarrow> list_all P (mapDelete k xs)"
  by (induction xs) auto

lemma list_all_live: "list_all P xs \<Longrightarrow> list_all P (live t xs)"
  by (induction xs) (auto simp: live_def)

lemma reservedSum_nonneg:
  "list_all (\<lambda>(rid, r). 0 \<le> quantity r) xs \<Longrightarrow> 0 \<le> reservedSum t xs"
  by (induction xs) (auto simp: reservedSum_def live_def)

lemma sum_vstock_nonneg: "list_all (\<lambda>v. 0 \<le> vstock v) vs \<Longrightarrow> 0 \<le> sum_list (map vstock vs)"
  by (induction vs) auto

lemma find_list_all: "find P xs = Some x \<Longrightarrow> list_all Q xs \<Longrightarrow> Q x"
  by (induction xs) (auto split: if_splits)

lemma reserveStock_entries_cases:
  "entriesOf (snd (reserveStock e productId qty sz col ttlSeconds rid st)) (reservationKey productId sz col) =
     entriesOf (snd (checkAvailability e productId qty sz col st)) (reservationKey productId sz col) \<or>
   entriesOf (snd (reserveStock e productId qty sz col ttlSeconds rid st)) (reservationKey productId sz col) =
     mapSet rid \<lparr>quantity = qty, createdAt = now e, ttl = ttlOrDefault ttlSeconds * 1000\<rparr>
       (entriesOf (snd (checkAvailability e productId qty sz col st)) (reservationKey productId sz col))"
proof (cases "checkAvailability e productId qty sz col st")
  case (Pair r st1)
  show ?thesis
  proof (cases r)
    case (Inl err)
    with Pair show ?thesis by (simp add: reserveStock_def)
  next
    case (Inr a)
    with Pair show ?thesis
      by (cases "available a") (simp_all add: reserveStock_def reserveStockAdmit_entries, simp add: reserveStockAdmit_def)
  qed
qed

lemma wellFormed_reserveStock:
  assumes "wellFormed st productId sz col" and "0 \<le> qty"
  shows "wellFormed (snd (reserveStock e productId qty sz col ttlSeconds rid st)) productId sz col"
proof -
  let ?k = "reservationKey productId sz col"
  let ?P = "\<lambda>(rid, r). 0 \<le> quantity r"
  have 0: "list_all ?P (entriesOf st ?k)"
    using assms(1) by (simp add: wellFormed_def)
  have 1: "list_all ?P (entriesOf (snd (checkAvailability e productId qty sz col st)) ?k)"
    using checkAvailability_entries [of e productId qty sz col st] 0
    by (auto simp: list_all_live)
  have "list_all ?P (entriesOf (snd (reserveStock e productId qty sz col ttlSeconds rid st)) ?k)"
    using reserveStock_entries_cases [of e productId qty sz col ttlSeconds rid st] 1 assms(2)
    by (auto simp: list_all_mapSet)
  then show ?thesis
    using assms(1) by (simp add: wellFormed_def)
qed

lemma wellFormed_releaseReservation:
  assumes "wellFormed st productId sz col"
  shows "wellFormed (snd (releaseReservation e rid productId sz col st)) productId sz col"
  using assms
  by (auto simp: wellFormed_def releaseReservation_entries list_all_mapDelete split: option.splits)

lemma applyOperation_nonneg:
  "applyOperation op old qty = Inr n \<Longrightarrow> 0 \<le> old \<Longrightarrow> 0 \<le> qty \<Longrightarrow> 0 \<le> n"
  by (auto simp: applyOperation_def split: if_splits)

lemma list_all_update: "list_all P xs \<Longrightarrow> P y \<Longrightarrow> list_all P (xs[i := y])"
  by (induction xs arbitrary: i) (auto split: nat.splits)

lemma list_all_nth: "list_all P xs \<Longrightarrow> i < length xs \<Longrightarrow> P (xs ! i)"
  by (simp add: list_all_length)

lemma stockOk_updatedProduct:
  assumes "updatedProduct p qty op sz col = Inr (old, n, p')" and "stockOk p" and "0 \<le> qty"
  shows "stockOk p'"
proof (cases "truthy sz \<or> truthy col")
  case False
  with assms show ?thesis
    by (auto simp: updatedProduct_def stockOk_def split: sum.splits dest: applyOperation_nonneg)
next
  case True
  with assms(1) obtain vs i where vs: "variants p = Some vs"
    and i: "findIndex (variantMatches sz col) vs = Some i"
    and ap: "applyOperation op (vstock (vs ! i)) qty = Inr n"
    and p': "p' = p\<lparr>variants := Some (vs[i := (vs ! i)\<lparr>vstock := n\<rparr>]),
                    stock := sum_list (map vstock (vs[i := (vs ! i)\<lparr>vstock := n\<rparr>]))\<rparr>"
    by (auto simp: updatedProduct_def Let_def foldl_stock_sum split: option.splits sum.splits)
  have a: "list_all (\<lambda>v. 0 \<le> vstock v) vs"
    using assms(2) vs by (simp add: stockOk_def)
  have "0 \<le> vstock (vs ! i)"
    using list_all_nth [OF a, of i] findIndex_Some [OF i] by simp
  from applyOperation_nonneg [OF ap this assms(3)]
  have "list_all (\<lambda>v. 0 \<le> vstock v) (vs[i := (vs ! i)\<lparr>vstock := n\<rparr>])"
    using a by (simp add: list_all_update)
  then show ?thesis
    by (simp add: p' stockOk_def sum_vstock_nonneg)
qed

lemma checkStockAlerts_keeps:
  "products (snd (checkStockAlerts e p productId sz col st)) = products st \<and>
   reservations (snd (checkStockAlerts e p productId sz col st)) = reservations st"
  by (simp add: checkStockAlerts_def Let_def)

lemma updateStock_reservations [simp]:
  "reservations (snd (updateStock e productId qty op sz col st)) = reservations st"
proof (cases "products st productId")
  case None
  then show ?thesis by (simp add: updateStock_def)
next
  case (Some p)
  show ?thesis
  proof (cases "updatedProduct p qty op sz col")
    case (Inl err)
    with Some show ?thesis by (simp add: updateStock_def)
  next
    case (Inr t)
    obtain old n p' where t: "t = (old, n, p')" by (cases t) auto
    let ?st2 = "st\<lparr>products := (products st)(productId \<mapsto> p'),
                   cache := cacheDel (cache st) (cacheKey productId sz col)\<rparr>"
    have "reservations (snd (checkStockAlerts e p' productId sz col ?st2)) = reservations st"
      by (simp add: checkStockAlerts_keeps)
    with Some Inr t show ?thesis
      by (cases "checkStockAlerts e p' productId sz col ?st2")
         (auto simp: updateStock_def Let_def split: sum.splits)
  qed
qed

lemma updateStock_products:
  "products (snd (updateStock e productId qty op sz col st)) = products st \<or>
   (\<exists>p old n p'. products st productId = Some p \<and> updatedProduct p qty op sz col = Inr (old, n, p') \<and>
      products (snd (updateStock e productId qty op sz col st)) = (products st)(productId \<mapsto> p'))"
proof (cases "products st productId")
  case None
  then show ?thesis by (simp add: updateStock_def)
next
  case (Some p)
  show ?thesis
  proof (cases "updatedProduct p qty op sz col")
    case (Inl err)
    with Some show ?thesis by (simp add: updateStock_def)
  next
    case (Inr t)
    obtain old n p' where t: "t = (old, n, p')" by (cases t) auto
    let ?st2 = "st\<lparr>products := (products st)(productId \<mapsto> p'),
                   cache := cacheDel (cache st) (cacheKey productId sz col)\<rparr>"
    have "products (snd (checkStockAlerts e p' productId sz col ?st2)) = (products st)(productId \<mapsto> p')"
      by (simp add: checkStockAlerts_keeps)
    with Some Inr t show ?thesis
      by (cases "checkStockAlerts e p' productId sz col ?st2")
         (auto simp: updateStock_def Let_def split: sum.splits)
  qed
qed

lemma wellFormed_updateStock:
  assumes "wellFormed st productId sz col" and "0 \<le> qty"
  shows "wellFormed (snd (updateStock e productId qty op sz col st)) productId sz col"
proof -
  have "case products (snd (updateStock e productId qty op sz col st)) productId of
          None \<Rightarrow> True | Some p \<Rightarrow> stockOk p"
    using updateStock_products [of e productId qty op sz col st] assms
    by (auto simp: wellFormed_def dest: stockOk_updatedProduct)
  then show ?thesis
    using assms(1) by (simp add: wellFormed_def entriesOf_def)
qed

lemma wellFormed_callOn:
  "wellFormed st productId sz col \<Longrightarrow> 0 \<le> callQuantity c \<Longrightarrow>
     wellFormed (callOn productId sz col e c st) productId sz col"
  by (cases c)
     (simp_all add: wellFormed_reserveStock wellFormed_releaseReservation wellFormed_updateStock)

lemma wellFormed_runCalls:
  "wellFormed st productId sz col \<Longrightarrow> list_all (\<lambda>(e, c). 0 \<le> callQuantity c) calls \<Longrightarrow>
     wellFormed (runCalls productId sz col calls st) productId sz col"
  by (induction calls arbitrary: st) (auto simp: wellFormed_callOn)

lemma wellFormed_totalStock:
  assumes "wellFormed st productId sz col" and "totalStock st productId sz col = Some n"
  shows "0 \<le> n"
proof -
  from assms(2) obtain p where p: "products st productId = Some p" and l: "ledgerStock p sz col = Some n"
    by (auto simp: totalStock_def split: option.splits if_splits)
  from assms(1) p have ok: "stockOk p"
    by (simp add: wellFormed_def)
  show ?thesis
  proof (cases "truthy sz \<or> truthy col")
    case False
    with l ok show ?thesis by (auto simp: ledgerStock_def stockOk_def)
  next
    case True
    with l obtain vs v where "variants p = Some vs" "find (variantMatches sz col) vs = Some v"
      "vstock v = n"
      by (auto simp: ledgerStock_def split: option.splits)
    with ok find_list_all [of "variantMatches sz col" vs v "\<lambda>v. 0 \<le> vstock v"]
    show ?thesis by (simp add: stockOk_def)
  qed
qed

subsection \<open>Calls made one after the other\<close>

lemma advance_twice:
  "advance e productId sz col (fst (advance e productId sz col (Waiting rid) st))
     (snd (advance e productId sz col (Waiting rid) st)) =
   (Finished (fst (reserveStock e productId 1 sz col None rid st)),
    snd (reserveStock e productId 1 sz col None rid st))"
proof (cases "checkAvailability e productId 1 sz col st")
  case (Pair r st1)
  then show ?thesis
    by (cases r) (simp_all add: reserveStock_def split: prod.splits)
qed

lemma mapSet_fresh: "map_of xs k = None \<Longrightarrow> mapSet k v xs = xs @ [(k, v)]"
  by (induction xs) (auto split: if_splits)

lemma live_all:
  "list_all (\<lambda>(rid, r). quantity r = 1 \<and> \<not> expired t r) xs \<Longrightarrow> live t xs = xs"
  by (induction xs) (auto simp: live_def)

lemma reservedSum_units:
  "list_all (\<lambda>(rid, r). quantity r = 1 \<and> \<not> expired t r) xs \<Longrightarrow> reservedSum t xs = int (length xs)"
  by (induction xs) (auto simp: reservedSum_def live_def)

lemma getReservedStock_units:
  assumes "list_all (\<lambda>(rid, r). quantity r = 1 \<and> \<not> expired (now e) r)
             (entriesOf st (reservationKey productId sz col))"
  shows "fst (getReservedStock e productId sz col st) =
           int (length (entriesOf st (reservationKey productId sz col)))"
    and "entriesOf (snd (getReservedStock e productId sz col st)) (reservationKey productId sz col) =
           entriesOf st (reservationKey productId sz col)"
    and "products (snd (getReservedStock e productId sz col st)) = products st"
    and "cache (snd (getReservedStock e productId sz col st)) = cache st"
  using assms
  by (auto simp: getReservedStock_eq entriesOf_def reservedSum_units live_all split: option.splits)

lemma cacheGet_setex [simp]: "cacheGet t (cacheSetex t c k 300 v) k = Some v"
  by (simp add: cacheGet_def cacheSetex_def)

lemma cacheGet_del [simp]: "cacheGet t (cacheDel c k) k = None"
  by (simp add: cacheGet_def cacheDel_def)

lemma succeeded_simps [simp]: "\<not> succeeded (Inl err)" "succeeded (Inr res)"
  by (simp_all add: succeeded_def)

lemma reserveStock_unit_refused_on_hit:
  assumes "\<not> cacheGetFails e"
      and "cacheGet (now e) (cache st) (cacheKey productId sz col) = Some 0"
  shows "reserveStock e productId 1 sz col None rid st = (Inl (InsufficientStock 0 1), st)"
  using assms by (simp add: reserveStock_def checkAvailability_hit reserveStockAdmit_def)

lemma totalStock_reserveStock [simp]:
  "totalStock (snd (reserveStock e productId qty sz col ttlSeconds rid st)) productId sz col =
   totalStock st productId sz col"
  by (rule totalStock_cong) simp

lemma reserveStock_unit_refused_on_miss:
  assumes "\<not> cacheGetFails e" and "\<not> cacheSetFails e"
      and "cacheGet (now e) (cache st) (cacheKey productId sz col) = None"
      and "totalStock st productId sz col = Some (int S)"
      and "list_all (\<lambda>(rid, r). quantity r = 1 \<and> \<not> expired (now e) r)
             (entriesOf st (reservationKey productId sz col))"
      and "length (entriesOf st (reservationKey productId sz col)) = S"
  shows "fst (reserveStock e productId 1 sz col None rid st) = Inl (InsufficientStock 0 1)"
    and "entriesOf (snd (reserveStock e productId 1 sz col None rid st)) (reservationKey productId sz col) =
           entriesOf st (reservationKey productId sz col)"
    and "cache (snd (reserveStock e productId 1 sz col None rid st)) (cacheKey productId sz col) =
           Some \<lparr>cachedValue = 0, validUntil = now e + 300000\<rparr>"
proof -
  note g = getReservedStock_units [OF assms(5)]
  let ?st1 = "snd (getReservedStock e productId sz col st)"
  have c: "checkAvailability e productId 1 sz col st =
      (Inr \<lparr>available = False, stockLevel = 0, requested = 1, canFulfill = 0, reason = None,
            reserved = Some (int S)\<rparr>,
       ?st1\<lparr>cache := cacheSetex (now e) (cache ?st1) (cacheKey productId sz col) 300 0\<rparr>)"
    using assms(6) by (simp add: checkAvailability_miss [OF assms(1-4)] g(1) Let_def)
  show "fst (reserveStock e productId 1 sz col None rid st) = Inl (InsufficientStock 0 1)"
    by (simp add: reserveStock_def c reserveStockAdmit_def)
  show "entriesOf (snd (reserveStock e productId 1 sz col None rid st)) (reservationKey productId sz col) =
           entriesOf st (reservationKey productId sz col)"
    using g(2) by (simp add: reserveStock_def c reserveStockAdmit_def entriesOf_def)
  show "cache (snd (reserveStock e productId 1 sz col None rid st)) (cacheKey productId sz col) =
           Some \<lparr>cachedValue = 0, validUntil = now e + 300000\<rparr>"
    by (simp add: reserveStock_def c reserveStockAdmit_def cacheSetex_def)
qed

lemma reserveStock_unit_admitted:
  assumes "\<not> cacheGetFails e" and "\<not> cacheSetFails e"
      and "cacheGet (now e) (cache st) (cacheKey productId sz col) = None"
      and "totalStock st productId sz col = Some (int S)"
      and "list_all (\<lambda>(rid, r). quantity r = 1 \<and> \<not> expired (now e) r)
             (entriesOf st (reservationKey productId sz col))"
      and "length (entriesOf st (reservationKey productId sz col)) < S"
      and "\<not> cacheDelFails e"
      and "map_of (entriesOf st (reservationKey productId sz col)) rid = None"
  shows "succeeded (fst (reserveStock e productId 1 sz col None rid st))"
    and "entriesOf (snd (reserveStock e productId 1 sz col None rid st)) (reservationKey productId sz col) =
           entriesOf st (reservationKey productId sz col) @
             [(rid, \<lparr>quantity = 1, createdAt = now e, ttl = 900000\<rparr>)]"
    and "cache (snd (reserveStock e productId 1 sz col None rid st)) (cacheKey productId sz col) = None"
proof -
  note g = getReservedStock_units [OF assms(5)]
  let ?st1 = "snd (getReservedStock e productId sz col st)"
  let ?n = "int (length (entriesOf st (reservationKey productId sz col)))"
  let ?a = "\<lparr>available = True, stockLevel = int S - ?n, requested = 1,
            canFulfill = 1, reason = None, reserved = Some ?n\<rparr>"
  let ?st2 = "?st1\<lparr>cache := cacheSetex (now e) (cache ?st1) (cacheKey productId sz col) 300 (int S - ?n)\<rparr>"
  have c: "checkAvailability e productId 1 sz col st = (Inr ?a, ?st2)"
    using assms(6) by (simp add: checkAvailability_miss [OF assms(1-4)] g(1) Let_def)
  have r: "reserveStock e productId 1 sz col None rid st =
             reserveStockAdmit e productId 1 sz col None rid ?a ?st2"
    by (simp add: reserveStock_def c)
  show "succeeded (fst (reserveStock e productId 1 sz col None rid st))"
    using assms(7) by (simp add: r reserveStockAdmit_fst)
  have "entriesOf ?st2 (reservationKey productId sz col) = entriesOf st (reservationKey productId sz col)"
    using g(2) by (simp add: entriesOf_def)
  then show "entriesOf (snd (reserveStock e productId 1 sz col None rid st)) (reservationKey productId sz col) =
           entriesOf st (reservationKey productId sz col) @
             [(rid, \<lparr>quantity = 1, createdAt = now e, ttl = 900000\<rparr>)]"
    using assms(8) by (simp add: r reserveStockAdmit_entries mapSet_fresh ttlOrDefault_def)
  show "cache (snd (reserveStock e productId 1 sz col None rid st)) (cacheKey productId sz col) = None"
    using assms(7) by (simp add: r reserveStockAdmit_def Let_def cacheDel_def)
qed

lemma units_not_expired:
  assumes "list_all (\<lambda>(rid, r). quantity r = 1 \<and> d \<le> createdAt r + ttl r) xs" and "t \<le> d"
  shows "list_all (\<lambda>(rid, r). quantity r = 1 \<and> \<not> expired t r) xs"
  using assms by (auto simp: list_all_iff expired_def)

lemma reserveEach_count:
  "list_all (\<lambda>(e, rid). \<not> cacheGetFails e \<and> \<not> cacheSetFails e \<and> \<not> cacheDelFails e \<and>
       t0 \<le> now e \<and> now e \<le> t0 + 900000) calls \<Longrightarrow>
   distinct (map snd calls) \<Longrightarrow>
   totalStock st productId sz col = Some (int S) \<Longrightarrow>
   list_all (\<lambda>(rid, r). quantity r = 1 \<and> t0 + 900000 \<le> createdAt r + ttl r)
     (entriesOf st (reservationKey productId sz col)) \<Longrightarrow>
   list_all (\<lambda>(e, rid). map_of (entriesOf st (reservationKey productId sz col)) rid = None) calls \<Longrightarrow>
   length (entriesOf st (reservationKey productId sz col)) \<le> S \<Longrightarrow>
   (case cache st (cacheKey productId sz col) of
      None \<Rightarrow> True
    | Some ce \<Rightarrow> cachedValue ce = 0 \<and> length (entriesOf st (reservationKey productId sz col)) = S) \<Longrightarrow>
   length (filter succeeded (fst (reserveEach productId sz col calls st))) =
     min (length calls) (S - length (entriesOf st (reservationKey productId sz col))) \<and>
   list_all (\<lambda>r. succeeded r \<or> r = Inl (InsufficientStock 0 1))
     (fst (reserveEach productId sz col calls st))"
proof (induction calls arbitrary: st)
  case Nil
  then show ?case by simp
next
  case (Cons call calls)
  obtain e rid where call: "call = (e, rid)" by (cases call)
  let ?k = "reservationKey productId sz col"
  let ?c = "cacheKey productId sz col"
  let ?r = "reserveStock e productId 1 sz col None rid st"
  let ?H = "\<lambda>(e, rid). \<not> cacheGetFails e \<and> \<not> cacheSetFails e \<and> \<not> cacheDelFails e \<and>
       t0 \<le> now e \<and> now e \<le> t0 + 900000"
  let ?U = "\<lambda>(rid, r). quantity r = 1 \<and> t0 + 900000 \<le> createdAt r + ttl r"
  have h: "\<not> cacheGetFails e" "\<not> cacheSetFails e" "\<not> cacheDelFails e"
    and lo: "t0 \<le> now e" and hi: "now e \<le> t0 + 900000"
    and hs: "list_all ?H calls"
    using Cons.prems(1) call by simp_all
  have d: "distinct (map snd calls)" and nin: "rid \<notin> snd ` set calls"
    using Cons.prems(2) call by simp_all
  have fr: "map_of (entriesOf st ?k) rid = None"
    and frs: "list_all (\<lambda>(e, rid). map_of (entriesOf st ?k) rid = None) calls"
    using Cons.prems(5) call by simp_all
  have u: "list_all (\<lambda>(rid, r). quantity r = 1 \<and> \<not> expired (now e) r) (entriesOf st ?k)"
    using Cons.prems(4) hi by (rule units_not_expired)
  have split: "fst (reserveEach productId sz col (call # calls) st) =
                 fst ?r # fst (reserveEach productId sz col calls (snd ?r))"
    by (simp add: call split: prod.splits)
  note reserveEach.simps [simp del]
  consider (hit) "cacheGet (now e) (cache st) ?c = Some 0" "length (entriesOf st ?k) = S"
    | (full) "cacheGet (now e) (cache st) ?c = None" "length (entriesOf st ?k) = S"
    | (room) "cacheGet (now e) (cache st) ?c = None" "length (entriesOf st ?k) < S"
  proof (cases "cacheGet (now e) (cache st) ?c")
    case None
    with Cons.prems(6) that(2,3) show ?thesis
      by (cases "length (entriesOf st ?k) = S") auto
  next
    case (Some v)
    with Cons.prems(7) have "v = 0" and "length (entriesOf st ?k) = S"
      by (auto simp: cacheGet_def split: option.splits if_splits)
    with Some that(1) show ?thesis by simp
  qed
  then show ?case
  proof cases
    case hit
    have r: "?r = (Inl (InsufficientStock 0 1), st)"
      using h(1) hit(1) by (rule reserveStock_unit_refused_on_hit)
    have "length (filter succeeded (fst (reserveEach productId sz col calls st))) =
            min (length calls) (S - length (entriesOf st ?k)) \<and>
          list_all (\<lambda>r. succeeded r \<or> r = Inl (InsufficientStock 0 1))
            (fst (reserveEach productId sz col calls st))"
      using hs d Cons.prems(3,4) frs Cons.prems(6,7) by (rule Cons.IH)
    then show ?thesis
      using hit(2) by (simp add: split r)
  next
    case full
    note f = reserveStock_unit_refused_on_miss [OF h(1,2) full(1) Cons.prems(3) u full(2), of rid]
    have "length (filter succeeded (fst (reserveEach productId sz col calls (snd ?r)))) =
            min (length calls) (S - length (entriesOf (snd ?r) ?k)) \<and>
          list_all (\<lambda>r. succeeded r \<or> r = Inl (InsufficientStock 0 1))
            (fst (reserveEach productId sz col calls (snd ?r)))"
    proof (rule Cons.IH [OF hs d])
      show "totalStock (snd ?r) productId sz col = Some (int S)"
        using Cons.prems(3) by simp
      show "list_all ?U (entriesOf (snd ?r) ?k)"
        using Cons.prems(4) by (simp add: f(2))
      show "list_all (\<lambda>(e, rid). map_of (entriesOf (snd ?r) ?k) rid = None) calls"
        using frs by (simp add: f(2))
      show "length (entriesOf (snd ?r) ?k) \<le> S"
        using full(2) by (simp add: f(2))
      show "case cache (snd ?r) ?c of None \<Rightarrow> True
            | Some ce \<Rightarrow> cachedValue ce = 0 \<and> length (entriesOf (snd ?r) ?k) = S"
        using full(2) by (simp add: f(2,3))
    qed
    then show ?thesis
      using full(2) by (simp add: split f(1,2))
  next
    case room
    note a = reserveStock_unit_admitted [OF h(1,2) room(1) Cons.prems(3) u room(2) h(3) fr]
    have "length (filter succeeded (fst (reserveEach productId sz col calls (snd ?r)))) =
            min (length calls) (S - length (entriesOf (snd ?r) ?k)) \<and>
          list_all (\<lambda>r. succeeded r \<or> r = Inl (InsufficientStock 0 1))
            (fst (reserveEach productId sz col calls (snd ?r)))"
    proof (rule Cons.IH [OF hs d])
      show "totalStock (snd ?r) productId sz col = Some (int S)"
        using Cons.prems(3) by simp
      show "list_all ?U (entriesOf (snd ?r) ?k)"
        using Cons.prems(4) lo by (simp add: a(2))
      show "list_all (\<lambda>(e, rid). map_of (entriesOf (snd ?r) ?k) rid = None) calls"
        using frs nin by (force simp: a(2) list_all_iff)
      show "length (entriesOf (snd ?r) ?k) \<le> S"
        using room(2) by (simp add: a(2))
      show "case cache (snd ?r) ?c of None \<Rightarrow> True
            | Some ce \<Rightarrow> cachedValue ce = 0 \<and> length (entriesOf (snd ?r) ?k) = S"
        by (simp add: a(3))
    qed
    then show ?thesis
      using room(2) a(1) by (auto simp: split a(2))
  qed
qed

text \<open>
  Made one after the other, the calls are admitted as the stock allows. Each call is for
  one unit under an id of its own, with the cache store answering; the clock may
  advance from call to call as long as no reservation made on the way expires (all
  readings lie within 900 seconds, the default time to live, of \<open>t0\<close>); the key has
  total stock \<open>S\<close>, no reservation and no cache entry. Then exactly \<open>min K S\<close> of the
  \<open>K\<close> calls succeed and every other call fails with \<^verbatim>\<open>Insufficient stock\<close>
  (0 available, 1 requested).
\<close>

lemma back_to_back_calls_admit_min:
  assumes "list_all (\<lambda>(e, rid). \<not> cacheGetFails e \<and> \<not> cacheSetFails e \<and> \<not> cacheDelFails e \<and>
             t0 \<le> now e \<and> now e \<le> t0 + 900000) calls"
      and "distinct (map snd calls)"
      and "entriesOf st (reservationKey productId sz col) = []"
      and "cache st (cacheKey productId sz col) = None"
      and "totalStock st productId sz col = Some (int S)"
  shows "length (filter succeeded (fst (reserveEach productId sz col calls st))) =
           min (length calls) S \<and>
         list_all (\<lambda>r. succeeded r \<or> r = Inl (InsufficientStock 0 1))
           (fst (reserveEach productId sz col calls st))"
proof -
  have "length (filter succeeded (fst (reserveEach productId sz col calls st))) =
          min (length calls) (S - length (entriesOf st (reservationKey productId sz col))) \<and>
        list_all (\<lambda>r. succeeded r \<or> r = Inl (InsufficientStock 0 1))
          (fst (reserveEach productId sz col calls st))"
    using assms(1,2,5)
  proof (rule reserveEach_count)
    show "list_all (\<lambda>(rid, r). quantity r = 1 \<and> t0 + 900000 \<le> createdAt r + ttl r)
            (entriesOf st (reservationKey productId sz col))"
      by (simp add: assms(3))
    show "list_all (\<lambda>(e, rid). map_of (entriesOf st (reservationKey productId sz col)) rid = None) calls"
      by (simp add: assms(3) list_all_iff split: prod.splits)
    show "length (entriesOf st (reservationKey productId sz col)) \<le> S"
      by (simp add: assms(3))
    show "case cache st (cacheKey productId sz col) of None \<Rightarrow> True
          | Some ce \<Rightarrow> cachedValue ce = 0 \<and> length (entriesOf st (reservationKey productId sz col)) = S"
      by (simp add: assms(4))
  qed
  then show ?thesis
    by (simp add: assms(3))
qed

lemma back_to_back_calls_example:
  "map succeeded
     (fst (reserveEach ''p1'' None None
        [(healthy 0, ''r1''), (healthy 10, ''r2''), (healthy 20, ''r3'')] (shop 2))) =
   [True, True, False]"
  by (simp add: reserveStock_def reserveStockAdmit_def checkAvailability_def getReservedStock_def
      expired_def succeeded_def eval_defs)

section \<open>The claims\<close>

subsection \<open>Many calls for one unit each\<close>

text \<open>
  Claim C1. In the code the availability check and the insertion are not one critical
  section: \<^verbatim>\<open>reserveStock\<close> tests \<^verbatim>\<open>availability.available\<close> to refuse what the
  stock does not cover, but it has awaited the check before it inserts. With one unit
  in stock and nothing reserved, two calls for one unit each that both pass their
  availability check before either inserts are both admitted, and two units are then
  reserved against a stock of one; the same two calls made one after the other admit
  the first and refuse the second.
\<close>

theorem overlapping_calls_oversell:
  "totalStock (shop 1) ''p1'' None None = Some 1 \<and>
   entriesOf (shop 1) ''p1:any:any'' = [] \<and>
   map finishedWell
     (fst (interleave (healthy 0) ''p1'' None None [0, 1, 0, 1]
            [Waiting ''r1'', Waiting ''r2''] (shop 1))) = [True, True] \<and>
   reservedSum 0
     (entriesOf
       (snd (interleave (healthy 0) ''p1'' None None [0, 1, 0, 1]
              [Waiting ''r1'', Waiting ''r2''] (shop 1))) ''p1:any:any'') = 2 \<and>
   fst (reserveEach ''p1'' None None [(healthy 0, ''r1''), (healthy 0, ''r2'')] (shop 1)) =
     [Inr \<lparr>resReservationId = ''r1'', resQuantity = 1, expiresAt = 900000\<rparr>,
      Inl (InsufficientStock 0 1)]"
  by (simp add: reserveStock_def reserveStockAdmit_def checkAvailability_def getReservedStock_def
      totalStock_def ledgerStock_def entriesOf_def reservedSum_def live_def expired_def
      succeeded_def eval_defs)

subsection \<open>Available stock stays within bounds\<close>

text \<open>
  Claim C2 fails for quantities below zero, which no method refuses. From 5 units and
  nothing reserved, \<^verbatim>\<open>reserveStock\<close> of -2 units is admitted and 7 units are
  available of a total of 5; \<^verbatim>\<open>updateStock\<close> setting -3 leaves a total of -3, below
  the 0 units available.
\<close>

theorem negative_quantity_breaks_bound:
  "wellFormed (shop 5) ''p1'' None None \<and>
   totalStock (runCalls ''p1'' None None [(healthy 0, Reserve (- 2) None ''r1'')] (shop 5))
     ''p1'' None None = Some 5 \<and>
   availableAt (healthy 1) ''p1'' None None
     (runCalls ''p1'' None None [(healthy 0, Reserve (- 2) None ''r1'')] (shop 5)) = Some 7 \<and>
   totalStock (runCalls ''p1'' None None [(healthy 0, Update (- 3) ''set'')] (shop 5))
     ''p1'' None None = Some (- 3) \<and>
   availableAt (healthy 1) ''p1'' None None
     (runCalls ''p1'' None None [(healthy 0, Update (- 3) ''set'')] (shop 5)) = Some 0"
  by (simp add: wellFormed_def stockOk_def entriesOf_def
      reserveStock_def reserveStockAdmit_def checkAvailability_def getReservedStock_def
      updateStock_def updatedProduct_def applyOperation_def checkStockAlerts_def
      outOfStockThreshold_def lowStockThreshold_def
      availableAt_def totalStock_def ledgerStock_def expired_def eval_defs)

text \<open>
  Claim C2 as amended. Start from a state in which the stock figures of the product are not
  negative and neither are the quantities reserved under the key, and make any sequence
  of \<^verbatim>\<open>reserveStock\<close>, \<^verbatim>\<open>releaseReservation\<close> and \<^verbatim>\<open>updateStock\<close> calls on the
  key with quantities that are not negative, at any clock readings and with the
  collaborators failing or not. Then, at any time, available stock of the key (total
  stock less the quantities of the reservations not expired, not below zero) is at
  least 0 and at most the total stock. Every point of a sequence is the end of a
  shorter sequence, so this holds at every point.
\<close>

theorem available_between_zero_and_total:
  assumes "wellFormed st productId sz col"
      and "list_all (\<lambda>(e, c). 0 \<le> callQuantity c) calls"
      and "totalStock (runCalls productId sz col calls st) productId sz col = Some n"
  shows "\<exists>a. availableAt e productId sz col (runCalls productId sz col calls st) = Some a \<and>
              a = max 0 (n - reservedSum (now e)
                    (entriesOf (runCalls productId sz col calls st) (reservationKey productId sz col))) \<and>
              0 \<le> a \<and> a \<le> n"
proof -
  let ?st = "runCalls productId sz col calls st"
  have w: "wellFormed ?st productId sz col"
    using assms(1,2) by (rule wellFormed_runCalls)
  have n: "0 \<le> n"
    using w assms(3) by (rule wellFormed_totalStock)
  have r: "0 \<le> reservedSum (now e) (entriesOf ?st (reservationKey productId sz col))"
    using w by (simp add: wellFormed_def reservedSum_nonneg)
  show ?thesis
    using n r by (simp add: availableAt_entries assms(3))
qed

theorem available_between_zero_and_total_witness:
  "availableAt (healthy 30) ''p1'' (Some ''9'') None
     (runCalls ''p1'' (Some ''9'') None
        [(healthy 0, Reserve 1 None ''r1''), (healthy 10, Update 4 ''add''),
         (healthy 20, Reserve 3 (Some 60) ''r2''), (healthy 25, Release ''r1'')] sizedShop) = Some 3 \<and>
   totalStock
     (runCalls ''p1'' (Some ''9'') None
        [(healthy 0, Reserve 1 None ''r1''), (healthy 10, Update 4 ''add''),
         (healthy 20, Reserve 3 (Some 60) ''r2''), (healthy 25, Release ''r1'')] sizedShop)
     ''p1'' (Some ''9'') None = Some 6"
proof -
  let ?calls = "[(healthy 0, Reserve 1 None ''r1''), (healthy 10, Update 4 ''add''),
         (healthy 20, Reserve 3 (Some 60) ''r2''), (healthy 25, Release ''r1'')]"
  have w: "wellFormed sizedShop ''p1'' (Some ''9'') None"
    by (simp add: wellFormed_def stockOk_def entriesOf_def sizedShop_def sizedProduct_def)
  have q: "list_all (\<lambda>(e, c). 0 \<le> callQuantity c) ?calls"
    by simp
  have t: "totalStock (runCalls ''p1'' (Some ''9'') None ?calls sizedShop) ''p1'' (Some ''9'') None = Some 6"
    by (simp add: reserveStock_def reserveStockAdmit_def checkAvailability_def getReservedStock_def
        releaseReservation_def updateStock_def updatedProduct_def applyOperation_def
        checkStockAlerts_def variantMatches_def outOfStockThreshold_def lowStockThreshold_def
        totalStock_def ledgerStock_def expired_def sizedShop_def sizedProduct_def eval_defs)
  have e: "entriesOf (runCalls ''p1'' (Some ''9'') None ?calls sizedShop)
             (reservationKey ''p1'' (Some ''9'') None) =
           [(''r2'', \<lparr>quantity = 3, createdAt = 20, ttl = 60000\<rparr>)]"
    by (simp add: reserveStock_def reserveStockAdmit_def checkAvailability_def getReservedStock_def
        releaseReservation_def updateStock_def updatedProduct_def applyOperation_def
        checkStockAlerts_def variantMatches_def outOfStockThreshold_def lowStockThreshold_def
        entriesOf_def expired_def sizedShop_def sizedProduct_def eval_defs)
  have rs: "reservedSum (now (healthy 30)) [(''r2'', \<lparr>quantity = 3, createdAt = 20, ttl = 60000\<rparr>)] = 3"
    by (simp add: reservedSum_def live_def expired_def healthy_def)
  from available_between_zero_and_total [OF w q t, of "healthy 30"]
  have "availableAt (healthy 30) ''p1'' (Some ''9'') None
          (runCalls ''p1'' (Some ''9'') None ?calls sizedShop) =
        Some (max 0 (6 - reservedSum (now (healthy 30))
          (entriesOf (runCalls ''p1'' (Some ''9'') None ?calls sizedShop)
             (reservationKey ''p1'' (Some ''9'') None))))"
    by blast
  then have "availableAt (healthy 30) ''p1'' (Some ''9'') None
          (runCalls ''p1'' (Some ''9'') None ?calls sizedShop) = Some (max 0 (6 - 3))"
    unfolding e rs .
  with t show ?thesis
    by simp
qed

subsection \<open>Admission and the cache\<close>

text \<open>
  Claim C3 fails: \<^verbatim>\<open>reserveStock\<close> takes its decision from
  \<^verbatim>\<open>checkAvailability\<close>, which answers from the cache when it can. Two states with
  the same catalog and the same registry, 5 units in stock and none reserved: with an
  empty cache 3 units are reserved, with a cached figure of 0 the same call is refused.
\<close>

theorem reserveStock_decision_depends_on_cache:
  "products (cached 0 300000 (shop 5)) = products (shop 5) \<and>
   reservations (cached 0 300000 (shop 5)) = reservations (shop 5) \<and>
   fst (reserveStock (healthy 0) ''p1'' 3 None None None ''r1'' (shop 5)) =
     Inr \<lparr>resReservationId = ''r1'', resQuantity = 3, expiresAt = 900000\<rparr> \<and>
   fst (reserveStock (healthy 0) ''p1'' 3 None None None ''r1'' (cached 0 300000 (shop 5))) =
     Inl (InsufficientStock 0 3)"
  by (simp add: reserveStock_def reserveStockAdmit_def checkAvailability_def getReservedStock_def
      cached_def eval_defs)

text \<open>
  Claim C3 as amended. While the cache holds an unexpired figure for the key, that
  figure alone decides: the call is refused when the figure is below the quantity asked
  and admitted otherwise, whatever catalog and registry say. Only when there is no such
  figure do two states with the same catalog and registry decide alike.
\<close>

theorem reserveStock_decision_by_cache:
  "(\<forall>v. \<not> cacheGetFails e \<and> cacheGet (now e) (cache st) (cacheKey productId sz col) = Some v \<and> v < qty \<longrightarrow>
        reserveStock e productId qty sz col ttlSeconds rid st = (Inl (InsufficientStock v qty), st)) \<and>
   (\<forall>v. \<not> cacheGetFails e \<and> \<not> cacheDelFails e \<and>
        cacheGet (now e) (cache st) (cacheKey productId sz col) = Some v \<and> qty \<le> v \<longrightarrow>
        fst (reserveStock e productId qty sz col ttlSeconds rid st) =
          Inr \<lparr>resReservationId = rid, resQuantity = qty,
                expiresAt = now e + ttlOrDefault ttlSeconds * 1000\<rparr>) \<and>
   (\<forall>st'. cacheGet (now e) (cache st) (cacheKey productId sz col) = None \<and>
        cacheGet (now e) (cache st') (cacheKey productId sz col) = None \<and>
        products st' = products st \<and> reservations st' = reservations st \<longrightarrow>
        fst (reserveStock e productId qty sz col ttlSeconds rid st') =
        fst (reserveStock e productId qty sz col ttlSeconds rid st))"
proof (intro conjI allI impI)
  fix v
  assume "\<not> cacheGetFails e \<and> cacheGet (now e) (cache st) (cacheKey productId sz col) = Some v \<and> v < qty"
  then show "reserveStock e productId qty sz col ttlSeconds rid st = (Inl (InsufficientStock v qty), st)"
    by (simp add: reserveStock_def checkAvailability_hit reserveStockAdmit_def)
next
  fix v
  assume "\<not> cacheGetFails e \<and> \<not> cacheDelFails e \<and>
        cacheGet (now e) (cache st) (cacheKey productId sz col) = Some v \<and> qty \<le> v"
  then show "fst (reserveStock e productId qty sz col ttlSeconds rid st) =
          Inr \<lparr>resReservationId = rid, resQuantity = qty,
                expiresAt = now e + ttlOrDefault ttlSeconds * 1000\<rparr>"
    by (simp add: reserveStock_fst checkAvailability_hit)
next
  fix st' :: state
  assume "cacheGet (now e) (cache st) (cacheKey productId sz col) = None \<and>
        cacheGet (now e) (cache st') (cacheKey productId sz col) = None \<and>
        products st' = products st \<and> reservations st' = reservations st"
  then have "fst (checkAvailability e productId qty sz col st') =
             fst (checkAvailability e productId qty sz col st)"
    by (simp add: checkAvailability_miss_cong)
  then show "fst (reserveStock e productId qty sz col ttlSeconds rid st') =
        fst (reserveStock e productId qty sz col ttlSeconds rid st)"
    by (simp add: reserveStock_fst)
qed

theorem reserveStock_decision_by_cache_witness:
  "reserveStock (healthy 0) ''p1'' 3 None None None ''r1'' (cached 2 300000 (shop 5)) =
     (Inl (InsufficientStock 2 3), cached 2 300000 (shop 5)) \<and>
   fst (reserveStock (healthy 0) ''p1'' 3 None None None ''r1'' (cached 9 300000 (shop 0))) =
     Inr \<lparr>resReservationId = ''r1'', resQuantity = 3, expiresAt = 900000\<rparr> \<and>
   fst (reserveStock (healthy 0) ''p1'' 3 None None None ''r1'' (cached 9 0 (shop 5))) =
   fst (reserveStock (healthy 0) ''p1'' 3 None None None ''r1'' (shop 5))"
proof -
  have g: "\<not> cacheGetFails (healthy 0)" "\<not> cacheDelFails (healthy 0)"
    by (simp_all add: healthy_def)
  have c2: "cacheGet (now (healthy 0)) (cache (cached 2 300000 (shop 5))) (cacheKey ''p1'' None None) = Some 2"
    and c9: "cacheGet (now (healthy 0)) (cache (cached 9 300000 (shop 0))) (cacheKey ''p1'' None None) = Some 9"
    and n1: "cacheGet (now (healthy 0)) (cache (shop 5)) (cacheKey ''p1'' None None) = None"
    and n2: "cacheGet (now (healthy 0)) (cache (cached 9 0 (shop 5))) (cacheKey ''p1'' None None) = None"
    and pr: "products (cached 9 0 (shop 5)) = products (shop 5)"
            "reservations (cached 9 0 (shop 5)) = reservations (shop 5)"
    by (simp_all add: cached_def eval_defs)
  note th = reserveStock_decision_by_cache
    [of "healthy 0" _ "''p1''" None None 3 None "''r1''"]
  from th [of "cached 2 300000 (shop 5)"] g c2
  have 1: "reserveStock (healthy 0) ''p1'' 3 None None None ''r1'' (cached 2 300000 (shop 5)) =
     (Inl (InsufficientStock 2 3), cached 2 300000 (shop 5))"
    by simp
  from th [of "cached 9 300000 (shop 0)"] g c9
  have 2: "fst (reserveStock (healthy 0) ''p1'' 3 None None None ''r1'' (cached 9 300000 (shop 0))) =
     Inr \<lparr>resReservationId = ''r1'', resQuantity = 3, expiresAt = 900000\<rparr>"
    by (simp add: ttlOrDefault_def healthy_def)
  from th [of "shop 5"] n1 n2 pr
  have 3: "fst (reserveStock (healthy 0) ''p1'' 3 None None None ''r1'' (cached 9 0 (shop 5))) =
   fst (reserveStock (healthy 0) ''p1'' 3 None None None ''r1'' (shop 5))"
    by blast
  from 1 2 3 show ?thesis by simp
qed

subsection \<open>Stock mutation\<close>



subsection \<open>Reserved stock and expiry\<close>




subsection \<open>Cache invalidation\<close>

text \<open>
  Claim C6. The periodic sweep evicts without touching the cache. Stock is 5 and
  \<open>r1\<close> holds 3 units until 900000; a read at 850000 caches the figure 2 for 300
  seconds; the sweep, running at 900200 ahead of the timer of \<open>r1\<close>, evicts \<open>r1\<close>
  and leaves the cache entry in place, so a read just after it is still answered 2
  (3 units refused) while 5 units are available. \<^verbatim>\<open>reserveStock\<close>,
  \<^verbatim>\<open>releaseReservation\<close> and \<^verbatim>\<open>updateStock\<close> all delete the entry of their key;
  the timer of \<open>r1\<close>, firing after the sweep, finds no reservation and returns before
  its own cache deletion.
\<close>

theorem sweep_keeps_cache_entry:
  "reservations (cleanupExpiredReservations (healthy 900200)
      (snd (checkAvailability (healthy 850000) ''p1'' 1 None None held))) ''p1:any:any'' = None \<and>
   cache (cleanupExpiredReservations (healthy 900200)
      (snd (checkAvailability (healthy 850000) ''p1'' 1 None None held))) (cacheKey ''p1'' None None) =
     Some \<lparr>cachedValue = 2, validUntil = 1150000\<rparr> \<and>
   fst (checkAvailability (healthy 900201) ''p1'' 3 None None
      (cleanupExpiredReservations (healthy 900200)
        (snd (checkAvailability (healthy 850000) ''p1'' 1 None None held)))) =
     Inr \<lparr>available = False, stockLevel = 2, requested = 3, canFulfill = 2, reason = None,
           reserved = None\<rparr> \<and>
   availableAt (healthy 900201) ''p1'' None None
      (cleanupExpiredReservations (healthy 900200)
        (snd (checkAvailability (healthy 850000) ''p1'' 1 None None held))) = Some 5 \<and>
   fst (fireTimer (healthy 900201) r1Timer
      (cleanupExpiredReservations (healthy 900200)
        (snd (checkAvailability (healthy 850000) ''p1'' 1 None None held)))) =
     Inr ReservationNotFound \<and>
   cache (snd (fireTimer (healthy 900201) r1Timer
      (cleanupExpiredReservations (healthy 900200)
        (snd (checkAvailability (healthy 850000) ''p1'' 1 None None held)))))
     (cacheKey ''p1'' None None) = Some \<lparr>cachedValue = 2, validUntil = 1150000\<rparr>"
  by (simp add: checkAvailability_def getReservedStock_def cleanupExpiredReservations_def
      fireTimer_def releaseReservation_def r1Timer_def
      availableAt_def totalStock_def ledgerStock_def expired_def held_def eval_defs)

text \<open>
  \<^verbatim>\<open>updateStock\<close> on a variant recomputes the product's own stock and deletes the
  cache entry of the variant's key only: the entry of the product's key stays.
\<close>

lemma variant_update_keeps_product_cache_entry:
  "fst (checkAvailability (healthy 2) ''p1'' 4 None None
      (snd (updateStock (healthy 1) ''p1'' 0 ''set'' (Some ''9'') None
        (snd (checkAvailability (healthy 0) ''p1'' 1 None None sizedShop))))) =
     Inr \<lparr>available = True, stockLevel = 5, requested = 4, canFulfill = 5, reason = None,
           reserved = None\<rparr> \<and>
   availableAt (healthy 2) ''p1'' None None
      (snd (updateStock (healthy 1) ''p1'' 0 ''set'' (Some ''9'') None
        (snd (checkAvailability (healthy 0) ''p1'' 1 None None sizedShop)))) = Some 3"
  by (simp add: checkAvailability_def getReservedStock_def updateStock_def updatedProduct_def
      applyOperation_def checkStockAlerts_def variantMatches_def outOfStockThreshold_def
      lowStockThreshold_def availableAt_def totalStock_def ledgerStock_def sizedShop_def
      sizedProduct_def eval_defs)

subsection \<open>A reservation id used twice\<close>

text \<open>
  Claim C7 fails: the code has no duplicate check. \<open>r1\<close> holds 3 of 5 units since
  time 0; \<^verbatim>\<open>reserveStock\<close> with the id \<open>r1\<close> again, for 1 unit at time 5, succeeds and
  the registry now holds 1 unit under \<open>r1\<close>, created at 5.
\<close>

theorem reserveStock_existing_id_succeeds:
  "map_of (entriesOf held ''p1:any:any'') ''r1'' = Some \<lparr>quantity = 3, createdAt = 0, ttl = 900000\<rparr> \<and>
   fst (reserveStock (healthy 5) ''p1'' 1 None None None ''r1'' held) =
     Inr \<lparr>resReservationId = ''r1'', resQuantity = 1, expiresAt = 900005\<rparr> \<and>
   entriesOf (snd (reserveStock (healthy 5) ''p1'' 1 None None None ''r1'' held)) ''p1:any:any'' =
     [(''r1'', \<lparr>quantity = 1, createdAt = 5, ttl = 900000\<rparr>)]"
  by (simp add: reserveStock_def reserveStockAdmit_def checkAvailability_def getReservedStock_def
      expired_def entriesOf_def held_def eval_defs)

text \<open>
  Claim C7 as amended. When the id is already in the registry under the key and the
  availability check lets the call pass (the cache store answering), \<^verbatim>\<open>reserveStock\<close>
  succeeds, and the id then stands for the new reservation: the new quantity, created
  now, with the new time to live.
\<close>

theorem reserveStock_existing_id_overwrites:
  assumes "map_of (entriesOf st (reservationKey productId sz col)) rid = Some r0"
      and "admits e productId qty sz col st"
      and "\<not> cacheDelFails e"
  shows "fst (reserveStock e productId qty sz col ttlSeconds rid st) =
           Inr \<lparr>resReservationId = rid, resQuantity = qty,
                 expiresAt = now e + ttlOrDefault ttlSeconds * 1000\<rparr> \<and>
         map_of (entriesOf (snd (reserveStock e productId qty sz col ttlSeconds rid st))
                   (reservationKey productId sz col)) rid =
           Some \<lparr>quantity = qty, createdAt = now e, ttl = ttlOrDefault ttlSeconds * 1000\<rparr>"
proof
  show "fst (reserveStock e productId qty sz col ttlSeconds rid st) =
           Inr \<lparr>resReservationId = rid, resQuantity = qty,
                 expiresAt = now e + ttlOrDefault ttlSeconds * 1000\<rparr>"
    using assms(2,3) by (auto simp: reserveStock_fst admits_def split: sum.splits)
  show "map_of (entriesOf (snd (reserveStock e productId qty sz col ttlSeconds rid st))
                   (reservationKey productId sz col)) rid =
           Some \<lparr>quantity = qty, createdAt = now e, ttl = ttlOrDefault ttlSeconds * 1000\<rparr>"
    by (simp add: reserveStock_entries [OF assms(2)] map_of_mapSet)
qed

theorem reserveStock_existing_id_overwrites_witness:
  "fst (reserveStock (healthy 5) ''p1'' 2 None None (Some 60) ''r1'' held) =
     Inr \<lparr>resReservationId = ''r1'', resQuantity = 2, expiresAt = 60005\<rparr> \<and>
   map_of (entriesOf (snd (reserveStock (healthy 5) ''p1'' 2 None None (Some 60) ''r1'' held))
             (reservationKey ''p1'' None None)) ''r1'' =
     Some \<lparr>quantity = 2, createdAt = 5, ttl = 60000\<rparr>"
proof -
  have a: "map_of (entriesOf held (reservationKey ''p1'' None None)) ''r1'' =
             Some \<lparr>quantity = 3, createdAt = 0, ttl = 900000\<rparr>"
    by (simp add: entriesOf_def held_def eval_defs)
  have b: "admits (healthy 5) ''p1'' 2 None None held"
    by (simp add: admits_def checkAvailability_def getReservedStock_def expired_def held_def eval_defs)
  have c: "\<not> cacheDelFails (healthy 5)"
    by (simp add: healthy_def)
  from reserveStock_existing_id_overwrites [OF a b c, of "Some 60"]
  show ?thesis by (simp add: healthy_def ttlOrDefault_def)
qed

subsection \<open>Reserve, then release\<close>

text \<open>
  Claim C8 fails when the id is already in use: the reservation overwrites the one
  held under the id, and the release removes it altogether. \<open>r1\<close> holds 3 of 5 units,
  so 2 are available; reserving 1 unit under \<open>r1\<close> and releasing \<open>r1\<close> at once
  returns 1 and leaves 5 available.
\<close>

theorem reserve_release_existing_id:
  "availableAt (healthy 5) ''p1'' None None held = Some 2 \<and>
   fst (reserveStock (healthy 5) ''p1'' 1 None None None ''r1'' held) =
     Inr \<lparr>resReservationId = ''r1'', resQuantity = 1, expiresAt = 900005\<rparr> \<and>
   fst (releaseReservation (healthy 5) ''r1'' ''p1'' None None
          (snd (reserveStock (healthy 5) ''p1'' 1 None None None ''r1'' held))) = Inr (Released 1) \<and>
   availableAt (healthy 5) ''p1'' None None
     (snd (releaseReservation (healthy 5) ''r1'' ''p1'' None None
            (snd (reserveStock (healthy 5) ''p1'' 1 None None None ''r1'' held)))) = Some 5"
  by (simp add: reserveStock_def reserveStockAdmit_def checkAvailability_def getReservedStock_def
      releaseReservation_def availableAt_def totalStock_def ledgerStock_def
      expired_def held_def eval_defs)

text \<open>
  Claim C8 as amended. For a successful \<^verbatim>\<open>reserveStock\<close> of \<open>qty\<close> units under an id
  that the key does not hold yet, \<^verbatim>\<open>releaseReservation\<close> of that id (the cache store
  answering) returns \<open>qty\<close>, and available stock of the key, read at the time of the
  reservation or at any later time, is what it would be had the reservation not been
  made.
\<close>

theorem reserve_release_restores:
  assumes "fst (reserveStock e productId qty sz col ttlSeconds rid st) = Inr res"
      and "map_of (entriesOf st (reservationKey productId sz col)) rid = None"
      and "\<not> cacheDelFails e'"
      and "now e \<le> now e''"
  shows "fst (releaseReservation e' rid productId sz col
                (snd (reserveStock e productId qty sz col ttlSeconds rid st))) = Inr (Released qty) \<and>
         availableAt e'' productId sz col
           (snd (releaseReservation e' rid productId sz col
                   (snd (reserveStock e productId qty sz col ttlSeconds rid st)))) =
         availableAt e'' productId sz col st"
proof -
  let ?k = "reservationKey productId sz col"
  let ?st1 = "snd (checkAvailability e productId qty sz col st)"
  let ?st2 = "snd (reserveStock e productId qty sz col ttlSeconds rid st)"
  let ?new = "\<lparr>quantity = qty, createdAt = now e, ttl = ttlOrDefault ttlSeconds * 1000\<rparr>"
  have adm: "admits e productId qty sz col st"
    using assms(1) by (rule reserveStock_fst_admits)
  have e2: "entriesOf ?st2 ?k = mapSet rid ?new (entriesOf ?st1 ?k)"
    by (rule reserveStock_entries [OF adm])
  have fresh1: "map_of (entriesOf ?st1 ?k) rid = None"
    using checkAvailability_entries [of e productId qty sz col st] assms(2)
    by (auto simp: map_of_live_None)
  have m: "map_of (entriesOf ?st2 ?k) rid = Some ?new"
    by (simp add: e2 map_of_mapSet)
  have r: "fst (releaseReservation e' rid productId sz col ?st2) = Inr (Released qty)"
    using assms(3) by (simp add: releaseReservation_fst m)
  have "entriesOf (snd (releaseReservation e' rid productId sz col ?st2)) ?k =
          mapDelete rid (entriesOf ?st2 ?k)"
    by (simp add: releaseReservation_entries m)
  then have e3: "entriesOf (snd (releaseReservation e' rid productId sz col ?st2)) ?k = entriesOf ?st1 ?k"
    by (simp add: e2 mapDelete_mapSet_fresh [OF fresh1])
  have s: "reservedSum (now e'') (entriesOf ?st1 ?k) = reservedSum (now e'') (entriesOf st ?k)"
    using checkAvailability_entries [of e productId qty sz col st] reservedSum_live [OF assms(4)]
    by auto
  have t: "totalStock (snd (releaseReservation e' rid productId sz col ?st2)) productId sz col =
           totalStock st productId sz col"
    by (rule totalStock_cong) simp
  show ?thesis
    using r by (simp add: availableAt_entries e3 s t)
qed

theorem reserve_release_restores_witness:
  "fst (releaseReservation (healthy 6) ''r2'' ''p1'' None None
          (snd (reserveStock (healthy 5) ''p1'' 2 None None None ''r2'' held))) = Inr (Released 2) \<and>
   availableAt (healthy 7) ''p1'' None None
     (snd (releaseReservation (healthy 6) ''r2'' ''p1'' None None
            (snd (reserveStock (healthy 5) ''p1'' 2 None None None ''r2'' held)))) = Some 2"
proof -
  have a: "fst (reserveStock (healthy 5) ''p1'' 2 None None None ''r2'' held) =
             Inr \<lparr>resReservationId = ''r2'', resQuantity = 2, expiresAt = 900005\<rparr>"
    by (simp add: reserveStock_fst checkAvailability_def getReservedStock_def expired_def held_def
        eval_defs)
  have b: "map_of (entriesOf held (reservationKey ''p1'' None None)) ''r2'' = None"
    by (simp add: entriesOf_def held_def eval_defs)
  have c: "\<not> cacheDelFails (healthy 6)" and d: "now (healthy 5) \<le> now (healthy 7)"
    by (simp_all add: healthy_def)
  have v: "availableAt (healthy 7) ''p1'' None None held = Some 2"
    by (simp add: availableAt_def getReservedStock_def totalStock_def ledgerStock_def expired_def
        held_def eval_defs)
  from reserve_release_restores [OF a b c d] v
  show ?thesis by simp
qed

subsection \<open>Reading availability\<close>

text \<open>
  Claim C9. The two paths of \<^verbatim>\<open>checkAvailability\<close> disagree on
  \<^verbatim>\<open>canFulfill\<close>. With stock 5, no reservation and 3 units requested, the recomputing
  path answers \<open>canFulfill = min 5 3 = 3\<close>; once the figure 5 is in the cache the same
  request, asked again, is answered \<open>canFulfill = 5\<close>, the cached stock itself.
\<close>

theorem checkAvailability_canFulfill_on_hit:
  "fst (checkAvailability (healthy 0) ''p1'' 3 None None (shop 5)) =
     Inr \<lparr>available = True, stockLevel = 5, requested = 3, canFulfill = 3,
           reason = None, reserved = Some 0\<rparr> \<and>
   fst (checkAvailability (healthy 1) ''p1'' 3 None None
          (snd (checkAvailability (healthy 0) ''p1'' 3 None None (shop 5)))) =
     Inr \<lparr>available = True, stockLevel = 5, requested = 3, canFulfill = 5,
           reason = None, reserved = None\<rparr>"
  by (simp add: checkAvailability_def healthy_def shop_def cacheGet_def cacheSetex_def cacheKey_def
      orAny_def truthy_def plainProduct_def getReservedStock_def reservationKey_def)

subsection \<open>Failing collaborators\<close>

text \<open>
  Claim C10 fails: every method catches, logs and throws again. Stock is 5;
  \<^verbatim>\<open>updateStock\<close> adds 1 while \<^verbatim>\<open>cache.del\<close> throws: the call fails with the cache
  store's error, after the catalog has been written.
\<close>

theorem updateStock_fails_with_cache:
  "fst (updateStock (cacheDelDown 0) ''p1'' 1 ''add'' None None (shop 5)) = Inl CacheFailure \<and>
   products (snd (updateStock (cacheDelDown 0) ''p1'' 1 ''add'' None None (shop 5))) ''p1'' =
     Some (plainProduct 6)"
  by (simp add: updateStock_def updatedProduct_def applyOperation_def cacheDelDown_def eval_defs)

text \<open>
  Claim C10 as amended. A failure of the cache store or of an alert listener is thrown
  on to the caller. When \<^verbatim>\<open>cache.get\<close> throws, \<^verbatim>\<open>checkAvailability\<close> and
  \<^verbatim>\<open>reserveStock\<close> fail with nothing changed. When \<^verbatim>\<open>cache.del\<close> throws,
  \<^verbatim>\<open>reserveStock\<close> fails with the reservation already in the registry,
  \<^verbatim>\<open>releaseReservation\<close> fails with the reservation already removed, and
  \<^verbatim>\<open>updateStock\<close> fails with the catalog already written. When a listener throws on
  the low-stock or out-of-stock alert that \<^verbatim>\<open>updateStock\<close> emits, \<^verbatim>\<open>updateStock\<close>
  fails, again with the catalog already written.
\<close>

theorem collaborator_failure_is_rethrown:
  "(cacheGetFails e \<longrightarrow>
      checkAvailability e productId qty sz col st = (Inl CacheFailure, st) \<and>
      reserveStock e productId qty sz col ttlSeconds rid st = (Inl CacheFailure, st)) \<and>
   (cacheDelFails e \<and> admits e productId qty sz col st \<longrightarrow>
      fst (reserveStock e productId qty sz col ttlSeconds rid st) = Inl CacheFailure \<and>
      map_of (entriesOf (snd (reserveStock e productId qty sz col ttlSeconds rid st))
                (reservationKey productId sz col)) rid =
        Some \<lparr>quantity = qty, createdAt = now e, ttl = ttlOrDefault ttlSeconds * 1000\<rparr>) \<and>
   (\<forall>r. cacheDelFails e \<and> map_of (entriesOf st (reservationKey productId sz col)) rid = Some r \<longrightarrow>
      fst (releaseReservation e rid productId sz col st) = Inl CacheFailure \<and>
      entriesOf (snd (releaseReservation e rid productId sz col st)) (reservationKey productId sz col) =
        mapDelete rid (entriesOf st (reservationKey productId sz col))) \<and>
   (\<forall>p old n p'. cacheDelFails e \<and> products st productId = Some p \<and>
      updatedProduct p qty op sz col = Inr (old, n, p') \<longrightarrow>
      updateStock e productId qty op sz col st =
        (Inl CacheFailure, st\<lparr>products := (products st)(productId \<mapsto> p')\<rparr>)) \<and>
   (\<forall>p old n p'. listenerFails e \<and> \<not> cacheDelFails e \<and> products st productId = Some p \<and>
      updatedProduct p qty op sz col = Inr (old, n, p') \<and> ledgerStock p' sz col = Some n \<and>
      n \<le> lowStockThreshold \<longrightarrow>
      fst (updateStock e productId qty op sz col st) = Inl ListenerFailure \<and>
      products (snd (updateStock e productId qty op sz col st)) productId = Some p')"
proof (intro conjI allI impI)
  assume "cacheGetFails e"
  then show c: "checkAvailability e productId qty sz col st = (Inl CacheFailure, st)"
    by (simp add: checkAvailability_def)
  then show "reserveStock e productId qty sz col ttlSeconds rid st = (Inl CacheFailure, st)"
    by (simp add: reserveStock_def)
next
  assume a: "cacheDelFails e \<and> admits e productId qty sz col st"
  then show "fst (reserveStock e productId qty sz col ttlSeconds rid st) = Inl CacheFailure"
    by (auto simp: reserveStock_fst admits_def split: sum.splits)
  from a show "map_of (entriesOf (snd (reserveStock e productId qty sz col ttlSeconds rid st))
                (reservationKey productId sz col)) rid =
        Some \<lparr>quantity = qty, createdAt = now e, ttl = ttlOrDefault ttlSeconds * 1000\<rparr>"
    by (simp add: reserveStock_entries map_of_mapSet)
next
  fix r
  assume a: "cacheDelFails e \<and> map_of (entriesOf st (reservationKey productId sz col)) rid = Some r"
  then show "fst (releaseReservation e rid productId sz col st) = Inl CacheFailure"
    by (simp add: releaseReservation_fst)
  from a show "entriesOf (snd (releaseReservation e rid productId sz col st)) (reservationKey productId sz col) =
        mapDelete rid (entriesOf st (reservationKey productId sz col))"
    by (simp add: releaseReservation_entries)
next
  fix p old n p'
  assume "cacheDelFails e \<and> products st productId = Some p \<and>
      updatedProduct p qty op sz col = Inr (old, n, p')"
  then show "updateStock e productId qty op sz col st =
        (Inl CacheFailure, st\<lparr>products := (products st)(productId \<mapsto> p')\<rparr>)"
    by (simp add: updateStock_def)
next
  fix p old n p'
  assume a: "listenerFails e \<and> \<not> cacheDelFails e \<and> products st productId = Some p \<and>
      updatedProduct p qty op sz col = Inr (old, n, p') \<and> ledgerStock p' sz col = Some n \<and>
      n \<le> lowStockThreshold"
  then have l: "listenerFails e" and s: "ledgerStock p' sz col = Some n" and n: "n \<le> lowStockThreshold"
    by simp_all
  note c = checkStockAlerts_listener [OF l s n, of productId]
  from a show "fst (updateStock e productId qty op sz col st) = Inl ListenerFailure"
    by (simp add: updateStock_def c)
  from a show "products (snd (updateStock e productId qty op sz col st)) productId = Some p'"
    by (simp add: updateStock_def c)
qed

theorem collaborator_failure_is_rethrown_witness:
  "checkAvailability (cacheGetDown 0) ''p1'' 1 None None (shop 5) = (Inl CacheFailure, shop 5) \<and>
   reserveStock (cacheGetDown 0) ''p1'' 1 None None None ''r2'' (shop 5) = (Inl CacheFailure, shop 5) \<and>
   fst (reserveStock (cacheDelDown 5) ''p1'' 1 None None None ''r2'' held) = Inl CacheFailure \<and>
   map_of (entriesOf (snd (reserveStock (cacheDelDown 5) ''p1'' 1 None None None ''r2'' held))
     (reservationKey ''p1'' None None)) ''r2'' = Some \<lparr>quantity = 1, createdAt = 5, ttl = 900000\<rparr> \<and>
   fst (releaseReservation (cacheDelDown 5) ''r1'' ''p1'' None None held) = Inl CacheFailure \<and>
   entriesOf (snd (releaseReservation (cacheDelDown 5) ''r1'' ''p1'' None None held))
     (reservationKey ''p1'' None None) = [] \<and>
   updateStock (cacheDelDown 0) ''p1'' 1 ''add'' None None (shop 5) =
     (Inl CacheFailure, (shop 5)\<lparr>products := (products (shop 5))(''p1'' \<mapsto> plainProduct 6)\<rparr>) \<and>
   fst (updateStock (listenerDown 0) ''p1'' 1 ''add'' None None (shop 5)) = Inl ListenerFailure \<and>
   products (snd (updateStock (listenerDown 0) ''p1'' 1 ''add'' None None (shop 5))) ''p1'' =
     Some (plainProduct 6)"
proof -
  have g: "cacheGetFails (cacheGetDown 0)" and d5: "cacheDelFails (cacheDelDown 5)"
    and d0: "cacheDelFails (cacheDelDown 0)"
    and l0: "listenerFails (listenerDown 0)" "\<not> cacheDelFails (listenerDown 0)"
    by (simp_all add: cacheGetDown_def cacheDelDown_def listenerDown_def)
  have adm: "admits (cacheDelDown 5) ''p1'' 1 None None held"
    by (simp add: admits_def checkAvailability_def getReservedStock_def expired_def held_def
        cacheDelDown_def eval_defs)
  have r1: "map_of (entriesOf held (reservationKey ''p1'' None None)) ''r1'' =
              Some \<lparr>quantity = 3, createdAt = 0, ttl = 900000\<rparr>"
    and en: "entriesOf held (reservationKey ''p1'' None None) =
              [(''r1'', \<lparr>quantity = 3, createdAt = 0, ttl = 900000\<rparr>)]"
    by (simp_all add: entriesOf_def held_def eval_defs)
  have p: "products (shop 5) ''p1'' = Some (plainProduct 5)"
    by (simp add: shop_def)
  have u: "updatedProduct (plainProduct 5) 1 ''add'' None None = Inr (5, 6, plainProduct 6)"
    by (simp add: updatedProduct_def applyOperation_def plainProduct_def truthy_def)
  have s: "ledgerStock (plainProduct 6) None None = Some 6" and t: "(6::int) \<le> lowStockThreshold"
    by (simp_all add: ledgerStock_def plainProduct_def truthy_def lowStockThreshold_def)
  from collaborator_failure_is_rethrown [of "cacheGetDown 0" "''p1''" 1 None None "shop 5" None "''r2''" "''add''"] g
  have 1: "checkAvailability (cacheGetDown 0) ''p1'' 1 None None (shop 5) = (Inl CacheFailure, shop 5) \<and>
   reserveStock (cacheGetDown 0) ''p1'' 1 None None None ''r2'' (shop 5) = (Inl CacheFailure, shop 5)"
    by blast
  from collaborator_failure_is_rethrown [of "cacheDelDown 5" "''p1''" 1 None None held None "''r2''" "''add''"] d5 adm
  have 2: "fst (reserveStock (cacheDelDown 5) ''p1'' 1 None None None ''r2'' held) = Inl CacheFailure \<and>
   map_of (entriesOf (snd (reserveStock (cacheDelDown 5) ''p1'' 1 None None None ''r2'' held))
     (reservationKey ''p1'' None None)) ''r2'' =
     Some \<lparr>quantity = 1, createdAt = now (cacheDelDown 5), ttl = ttlOrDefault None * 1000\<rparr>"
    by blast
  from collaborator_failure_is_rethrown [of "cacheDelDown 5" "''p1''" 1 None None held None "''r1''" "''add''"] d5 r1
  have 3: "fst (releaseReservation (cacheDelDown 5) ''r1'' ''p1'' None None held) = Inl CacheFailure \<and>
   entriesOf (snd (releaseReservation (cacheDelDown 5) ''r1'' ''p1'' None None held))
     (reservationKey ''p1'' None None) = mapDelete ''r1'' (entriesOf held (reservationKey ''p1'' None None))"
    by blast
  from collaborator_failure_is_rethrown [of "cacheDelDown 0" "''p1''" 1 None None "shop 5" None "''r1''" "''add''"] d0 p u
  have 4: "updateStock (cacheDelDown 0) ''p1'' 1 ''add'' None None (shop 5) =
     (Inl CacheFailure, (shop 5)\<lparr>products := (products (shop 5))(''p1'' \<mapsto> plainProduct 6)\<rparr>)"
    by blast
  from collaborator_failure_is_rethrown [of "listenerDown 0" "''p1''" 1 None None "shop 5" None "''r1''" "''add''"] l0 p u s t
  have 5: "fst (updateStock (listenerDown 0) ''p1'' 1 ''add'' None None (shop 5)) = Inl ListenerFailure \<and>
   products (snd (updateStock (listenerDown 0) ''p1'' 1 ''add'' None None (shop 5))) ''p1'' =
     Some (plainProduct 6)"
    by blast
  from 1 2 3 4 5 show ?thesis
    by (simp add: en cacheDelDown_def ttlOrDefault_def)
qed

end
